theory Spec2Isabelle
  imports Main "HOL-Library.Monad_Syntax"
begin

section \<open>Data model of the board state store (src/app.js)\<close>

text \<open>
  The store of \<^verbatim>\<open>src/app.js\<close> is one mutable object \<^verbatim>\<open>state = {boards, currentBoardId}\<close>.
  Boards hold columns, columns hold projects, projects hold links, comments and an activity
  log. Objects are created by the store's own constructors or by \<^verbatim>\<open>JSON.parse\<close>, and no
  operation stores one object in two places, so the object graph is a tree and mutation in
  place of the object returned by \<^verbatim>\<open>Array.prototype.find\<close> is modelled by rebuilding the tree
  with the first matching element replaced.

  Field names follow the source; a prefix is added where two object kinds share a field name
  (\<^verbatim>\<open>id\<close>, \<^verbatim>\<open>title\<close>, \<^verbatim>\<open>description\<close>, \<^verbatim>\<open>timestamp\<close>) or where the name is taken in HOL; a
  parameter that is named like a field gets a prime (\<open>projectId'\<close> is a project's \<^verbatim>\<open>id\<close>).
  Strings are byte lists; the pictographs of the source's literals are written as their UTF-8
  bytes. \<^verbatim>\<open>Date.now()\<close> yields an instant in milliseconds, a natural number.
\<close>

text \<open>The values an activity carries as \<^verbatim>\<open>oldValue\<close>/\<^verbatim>\<open>newValue\<close>: \<^verbatim>\<open>null\<close>, a string, or an
  object literal of string-valued properties (in the order the literal lists them).\<close>

datatype jsval = Null | Str string | Obj "(string \<times> string) list"

record activity =
  a_id :: string
  action :: string
  a_description :: string
  a_timestamp :: nat
  oldValue :: jsval
  newValue :: jsval

text \<open>
  The \<^verbatim>\<open>timestamp\<close> of a link or a comment: the operations store a \<^verbatim>\<open>Date\<close> object
  (\<^verbatim>\<open>new Date()\<close>, given by its instant), and what comes back from JSON is the string that
  \<^verbatim>\<open>JSON.stringify\<close> wrote for it.
\<close>

datatype stamp = DateObject nat | DateString string

record link =
  l_id :: string
  url :: string
  l_title :: string
  l_timestamp :: stamp

record comment =
  cm_id :: string
  cm_text :: string
  cm_timestamp :: stamp

text \<open>\<^verbatim>\<open>logActivity\<close> tests \<^verbatim>\<open>!project.activityLog\<close>, so the log may be absent (\<open>None\<close>).\<close>

record project =
  p_id :: string
  projectId :: string
  projectName :: string
  p_description :: string
  links :: "link list"
  comments :: "comment list"
  activityLog :: "activity list option"

record column =
  c_id :: string
  c_title :: string
  c_order :: int
  projects :: "project list"

record board =
  b_id :: string
  b_name :: string
  projectIdPrefix :: string
  b_description :: string
  columns :: "column list"


subsection \<open>The environment: storage, notices, clock and randomness\<close>

text \<open>The document \<^verbatim>\<open>saveData\<close> writes under \<^verbatim>\<open>STORAGE_KEY\<close>.\<close>

record saved =
  sv_boards :: "board list"
  sv_currentBoardId :: "string option"
  lastSaved :: nat
  sv_version :: string

text \<open>How the storage backend answers \<^verbatim>\<open>setItem\<close>: it stores, or throws.\<close>

datatype setItem_outcome = Stores | QuotaExceededError | OtherError

text \<open>
  The world the operations run in: the \<^verbatim>\<open>state\<close> object (\<open>boards\<close>, \<open>currentBoardId\<close>; \<^verbatim>\<open>null\<close>
  is \<open>None\<close>), the storage (\<^verbatim>\<open>storageAvailable && storageAPI\<close>, the saved document, the
  \<^verbatim>\<open>lastBackupTime\<close> key), the notices shown by \<^verbatim>\<open>showToast\<close> (oldest first), and what the
  program cannot determine: the readings of \<^verbatim>\<open>Date.now()\<close>/\<^verbatim>\<open>new Date()\<close> (\<open>clock\<close>, the
  \<open>ticks\<close>-th reading comes next), the strings drawn from \<^verbatim>\<open>Math.random\<close> (\<open>entropy\<close>), and
  the local calendar rendering that \<^verbatim>\<open>formatTimestamp\<close> computes from a \<^verbatim>\<open>Date\<close> (\<open>localTime\<close>).
  Three functions of the language's library are taken as they are, without a model of their
  own: \<^verbatim>\<open>Date.prototype.toISOString\<close> (\<open>toISOString\<close>), \<^verbatim>\<open>String.prototype.toUpperCase\<close> on
  Unicode text (\<open>upperCase\<close>), and the digits that \<^verbatim>\<open>String\<close> prints for a number above \<open>2^53\<close>
  (\<open>numberText\<close>).
  Rendering (\<^verbatim>\<open>renderBoard\<close>, \<^verbatim>\<open>updateBoardSelector\<close>, \<^verbatim>\<open>renderProjectModal\<close>,
  \<^verbatim>\<open>updateStorageStatus\<close>, \<^verbatim>\<open>openProjectModal\<close>) only reads the store and writes the page; it
  is left out.
\<close>

record world =
  boards :: "board list"
  currentBoardId :: "string option"
  storageAvailable :: bool
  setItem :: setItem_outcome
  stored :: "saved option"
  lastBackupTime :: "nat option"
  toasts :: "string list"
  clock :: "nat \<Rightarrow> nat"
  ticks :: nat
  entropy :: "nat \<Rightarrow> string"
  draws :: nat
  localTime :: "nat \<Rightarrow> string"
  toISOString :: "nat \<Rightarrow> string"
  upperCase :: "string \<Rightarrow> string"
  numberText :: "nat \<Rightarrow> string"

text \<open>
  What a call can throw. \<open>TypeError w k\<close> is the exception of \<^verbatim>\<open>reorderColumns\<close>: when it is
  thrown, nothing has been saved and the store is \<open>w\<close>, except that the column array of the
  board holds \<^verbatim>\<open>undefined\<close> at index \<open>k\<close> (the columns of \<open>w\<close> are the other elements, in
  order). \<open>IllTyped\<close> marks an imported document that the typed store cannot hold.
\<close>

datatype error = TypeError world nat | IllTyped

definition Date_now :: "world \<Rightarrow> nat \<times> world" where
  "Date_now w = (clock w (ticks w), w\<lparr>ticks := Suc (ticks w)\<rparr>)"

text \<open>\<^verbatim>\<open>Math.random().toString(36).substr(2, 9)\<close>\<close>

definition Math_random :: "world \<Rightarrow> string \<times> world" where
  "Math_random w = (entropy w (draws w), w\<lparr>draws := Suc (draws w)\<rparr>)"

definition formatTimestamp :: "nat \<Rightarrow> world \<Rightarrow> string" where
  "formatTimestamp date w = localTime w date"

definition showToast :: "string \<Rightarrow> world \<Rightarrow> world" where
  "showToast message w = w\<lparr>toasts := toasts w @ [message]\<rparr>"

subsection \<open>Strings and numbers\<close>

definition digit_char :: "nat \<Rightarrow> char" where
  "digit_char d = char_of (48 + d)"

text \<open>\<^verbatim>\<open>String(n)\<close> for a natural number: its decimal digits.\<close>

fun string_of_nat :: "nat \<Rightarrow> string" where
  "string_of_nat n =
     (if n < 10 then [digit_char n] else string_of_nat (n div 10) @ [digit_char (n mod 10)])"

declare string_of_nat.simps [simp del]

text \<open>\<^verbatim>\<open>s.padStart(3, '0')\<close>\<close>

definition padStart3 :: "string \<Rightarrow> string" where
  "padStart3 s = replicate (3 - length s) (CHR ''0'') @ s"

definition toUpperCase :: "string \<Rightarrow> world \<Rightarrow> string" where
  "toUpperCase s w = upperCase w s"

text \<open>
  A number of the source that holds a count: a double with a natural value, or
  \<^verbatim>\<open>Infinity\<close>. Doubles have 53 significant bits, so every natural up to \<open>2^53\<close> is a
  double, and a larger one is rounded to the nearest double, to the even significand when it
  is halfway; from \<open>2^1024\<close> on the result is \<^verbatim>\<open>Infinity\<close>.
\<close>

datatype number = Finite nat | Infinity

fun bit_length :: "nat \<Rightarrow> nat" where
  "bit_length n = (if n = 0 then 0 else Suc (bit_length (n div 2)))"

declare bit_length.simps [simp del]

definition to_double :: "nat \<Rightarrow> number" where
  "to_double n =
     (if n \<le> 2 ^ 53 then Finite n
      else (let e = bit_length n - 53;
                q = n div 2 ^ e;
                r = n mod 2 ^ e;
                half = 2 ^ (e - 1);
                q' = (if half < r \<or> (r = half \<and> odd q) then q + 1 else q)
            in if 2 ^ 1024 \<le> q' * 2 ^ e then Infinity else Finite (q' * 2 ^ e)))"

text \<open>\<^verbatim>\<open>x > y\<close> and \<^verbatim>\<open>x + 1\<close> on these numbers.\<close>

fun greater :: "number \<Rightarrow> number \<Rightarrow> bool" where
  "greater (Finite a) (Finite b) = (a > b)"
| "greater Infinity (Finite b) = True"
| "greater x Infinity = False"

fun plus_one :: "number \<Rightarrow> number" where
  "plus_one (Finite n) = to_double (n + 1)"
| "plus_one Infinity = Infinity"

text \<open>\<^verbatim>\<open>String(x)\<close>: the decimal digits of a natural up to \<open>2^53\<close>.\<close>

definition Number_toString :: "number \<Rightarrow> world \<Rightarrow> string" where
  "Number_toString x w =
     (case x of
        Finite n \<Rightarrow> if n \<le> 2 ^ 53 then string_of_nat n else numberText w n
      | Infinity \<Rightarrow> ''Infinity'')"

text \<open>\<^verbatim>\<open>xs.join(sep)\<close>\<close>

fun join :: "string \<Rightarrow> string list \<Rightarrow> string" where
  "join sep [] = []"
| "join sep [x] = x"
| "join sep (x # y # ys) = x @ sep @ join sep (y # ys)"

definition warning_sign :: string where
  "warning_sign = [CHR 0xE2, CHR 0x9A, CHR 0xA0, CHR 0xEF, CHR 0xB8, CHR 0x8F]"

definition cross_mark :: string where
  "cross_mark = [CHR 0xE2, CHR 0x9D, CHR 0x8C]"

definition check_mark :: string where
  "check_mark = [CHR 0xE2, CHR 0x9C, CHR 0x85]"

definition link_sign :: string where
  "link_sign = [CHR 0xF0, CHR 0x9F, CHR 0x94, CHR 0x97]"

definition pencil_sign :: string where
  "pencil_sign = [CHR 0xE2, CHR 0x9C, CHR 0x8F, CHR 0xEF, CHR 0xB8, CHR 0x8F]"

definition wastebasket_sign :: string where
  "wastebasket_sign = [CHR 0xF0, CHR 0x9F, CHR 0x97, CHR 0x91, CHR 0xEF, CHR 0xB8, CHR 0x8F]"

definition speech_sign :: string where
  "speech_sign = [CHR 0xF0, CHR 0x9F, CHR 0x92, CHR 0xAC]"

subsection \<open>Arrays\<close>

text \<open>\<^verbatim>\<open>xs.findIndex(P)\<close>, with \<open>None\<close> for \<^verbatim>\<open>-1\<close>; \<^verbatim>\<open>xs.find(P)\<close> is \<^const>\<open>find\<close>.\<close>

fun findIndex :: "('a \<Rightarrow> bool) \<Rightarrow> 'a list \<Rightarrow> nat option" where
  "findIndex P [] = None"
| "findIndex P (x # xs) = (if P x then Some 0 else map_option Suc (findIndex P xs))"

text \<open>Mutating the object that \<^verbatim>\<open>xs.find(P)\<close> returned: the first match is replaced.\<close>

fun modify_first :: "('a \<Rightarrow> bool) \<Rightarrow> ('a \<Rightarrow> 'a) \<Rightarrow> 'a list \<Rightarrow> 'a list" where
  "modify_first P f [] = []"
| "modify_first P f (x # xs) = (if P x then f x # xs else x # modify_first P f xs)"

text \<open>
  The start position of \<^verbatim>\<open>xs.splice(start, ...)\<close> for an integer \<open>start\<close>: a negative start
  counts from the end, and the position is clamped to \<open>0..length xs\<close>.
\<close>

definition relative_start :: "int \<Rightarrow> nat \<Rightarrow> nat" where
  "relative_start start len =
     (if start < 0 then nat (max (int len + start) 0) else min (nat start) len)"

text \<open>\<^verbatim>\<open>xs.splice(start, 1)\<close>: the removed elements (none or one) and the array afterwards.\<close>

definition splice_delete1 :: "int \<Rightarrow> 'a list \<Rightarrow> 'a list \<times> 'a list" where
  "splice_delete1 start xs =
     (let k = relative_start start (length xs)
      in (take 1 (drop k xs), take k xs @ drop (Suc k) xs))"

text \<open>\<^verbatim>\<open>xs.splice(start, 0, x)\<close>: the array afterwards.\<close>

definition splice_insert :: "int \<Rightarrow> 'a \<Rightarrow> 'a list \<Rightarrow> 'a list" where
  "splice_insert start x xs =
     (let k = relative_start start (length xs) in take k xs @ x # drop k xs)"

subsection \<open>Reaching into the tree\<close>

definition with_board :: "string \<Rightarrow> (board \<Rightarrow> board) \<Rightarrow> world \<Rightarrow> world" where
  "with_board boardId f w = w\<lparr>boards := modify_first (\<lambda>b. b_id b = boardId) f (boards w)\<rparr>"

definition with_column :: "string \<Rightarrow> string \<Rightarrow> (column \<Rightarrow> column) \<Rightarrow> world \<Rightarrow> world" where
  "with_column boardId columnId f w =
     with_board boardId
       (\<lambda>b. b\<lparr>columns := modify_first (\<lambda>c. c_id c = columnId) f (columns b)\<rparr>) w"

definition with_project ::
  "string \<Rightarrow> string \<Rightarrow> string \<Rightarrow> (project \<Rightarrow> project) \<Rightarrow> world \<Rightarrow> world" where
  "with_project boardId columnId projectId' f w =
     with_column boardId columnId
       (\<lambda>c. c\<lparr>projects := modify_first (\<lambda>p. p_id p = projectId') f (projects c)\<rparr>) w"

text \<open>The lookups every operation starts with.\<close>

definition find_board :: "string \<Rightarrow> world \<Rightarrow> board option" where
  "find_board boardId w = find (\<lambda>b. b_id b = boardId) (boards w)"

definition find_column :: "string \<Rightarrow> board \<Rightarrow> column option" where
  "find_column columnId b = find (\<lambda>c. c_id c = columnId) (columns b)"

definition find_project :: "string \<Rightarrow> column \<Rightarrow> project option" where
  "find_project projectId' c = find (\<lambda>p. p_id p = projectId') (projects c)"

section \<open>Persistence and the activity log\<close>

text \<open>
  What \<^verbatim>\<open>JSON.parse\<close> reads back from the text \<^verbatim>\<open>JSON.stringify\<close> writes for the tree: every
  value as it is, except a \<^verbatim>\<open>Date\<close>, which is written as its ISO string.
\<close>

definition stamp_as_parsed :: "(nat \<Rightarrow> string) \<Rightarrow> stamp \<Rightarrow> stamp" where
  "stamp_as_parsed isoOf t = (case t of DateObject n \<Rightarrow> DateString (isoOf n) | DateString s \<Rightarrow> DateString s)"

definition link_as_parsed :: "(nat \<Rightarrow> string) \<Rightarrow> link \<Rightarrow> link" where
  "link_as_parsed isoOf l = l\<lparr>l_timestamp := stamp_as_parsed isoOf (l_timestamp l)\<rparr>"

definition comment_as_parsed :: "(nat \<Rightarrow> string) \<Rightarrow> comment \<Rightarrow> comment" where
  "comment_as_parsed isoOf c = c\<lparr>cm_timestamp := stamp_as_parsed isoOf (cm_timestamp c)\<rparr>"

definition project_as_parsed :: "(nat \<Rightarrow> string) \<Rightarrow> project \<Rightarrow> project" where
  "project_as_parsed isoOf p =
     p\<lparr>links := map (link_as_parsed isoOf) (links p),
       comments := map (comment_as_parsed isoOf) (comments p)\<rparr>"

definition column_as_parsed :: "(nat \<Rightarrow> string) \<Rightarrow> column \<Rightarrow> column" where
  "column_as_parsed isoOf c = c\<lparr>projects := map (project_as_parsed isoOf) (projects c)\<rparr>"

definition board_as_parsed :: "(nat \<Rightarrow> string) \<Rightarrow> board \<Rightarrow> board" where
  "board_as_parsed isoOf b = b\<lparr>columns := map (column_as_parsed isoOf) (columns b)\<rparr>"

text \<open>
  \<^verbatim>\<open>saveData\<close>: nothing happens without storage; otherwise the document is built (one clock
  reading), written as JSON text and stored, and a write that throws is reported by a notice.
  The saved document is given as it parses. Callers ignore the boolean \<^verbatim>\<open>saveData\<close> returns.
\<close>

definition saveData :: "world \<Rightarrow> world" where
  "saveData w =
     (if \<not> storageAvailable w then w
      else let (now, w1) = Date_now w
           in (case setItem w1 of
                 Stores \<Rightarrow>
                   w1\<lparr>stored := Some \<lparr>sv_boards = map (board_as_parsed (toISOString w1)) (boards w1),
                                         sv_currentBoardId = currentBoardId w1,
                                         lastSaved = now, sv_version = ''1.0''\<rparr>\<rparr>
               | QuotaExceededError \<Rightarrow>
                   showToast (warning_sign @ '' Storage full! Export backup immediately.'') w1
               | OtherError \<Rightarrow>
                   showToast (warning_sign @ '' Could not save. Export backup recommended.'') w1))"

definition generateId :: "string \<Rightarrow> world \<Rightarrow> string \<times> world" where
  "generateId prefix w =
     (let (now, w1) = Date_now w; (r, w2) = Math_random w1
      in (prefix @ ''-'' @ string_of_nat now @ ''-'' @ r, w2))"

definition log_of :: "project \<Rightarrow> activity list" where
  "log_of p = (case activityLog p of None \<Rightarrow> [] | Some l \<Rightarrow> l)"

text \<open>The record \<^verbatim>\<open>logActivity\<close> builds: a fresh id, then the time.\<close>

definition new_activity :: "string \<Rightarrow> string \<Rightarrow> jsval \<Rightarrow> jsval \<Rightarrow> world \<Rightarrow> activity \<times> world" where
  "new_activity act descr oldV newV w =
     (let (aid, w1) = generateId ''activity'' w;
          (now, w2) = Date_now w1
      in (\<lparr>a_id = aid, action = act, a_description = descr, a_timestamp = now,
           oldValue = oldV, newValue = newV\<rparr>, w2))"

text \<open>\<^verbatim>\<open>project.activityLog.unshift(activity)\<close>, on a log created empty when absent.\<close>

definition unshift_activity :: "activity \<Rightarrow> project \<Rightarrow> project" where
  "unshift_activity activity p = p\<lparr>activityLog := Some (activity # log_of p)\<rparr>"

definition logActivity ::
  "string \<Rightarrow> string \<Rightarrow> string \<Rightarrow> string \<Rightarrow> string \<Rightarrow> jsval \<Rightarrow> jsval \<Rightarrow> world \<Rightarrow> world" where
  "logActivity boardId columnId projectId' act descr oldV newV w =
     (case find_board boardId w of None \<Rightarrow> w | Some board \<Rightarrow>
     (case find_column columnId board of None \<Rightarrow> w | Some column \<Rightarrow>
     (case find_project projectId' column of None \<Rightarrow> w | Some project \<Rightarrow>
        (let (activity, w1) = new_activity act descr oldV newV w
         in with_project boardId columnId projectId' (unshift_activity activity) w1))))"

section \<open>Board and column operations\<close>

definition createBoard :: "string \<Rightarrow> string \<Rightarrow> string \<Rightarrow> world \<Rightarrow> board \<times> world" where
  "createBoard name prefix descr w =
     (let (bid, w1) = generateId ''board'' w;
          (c1, w2) = generateId ''col'' w1;
          (c2, w3) = generateId ''col'' w2;
          (c3, w4) = generateId ''col'' w3;
          board = \<lparr>b_id = bid, b_name = name, projectIdPrefix = toUpperCase prefix w,
                    b_description = descr,
                    columns =
                      [\<lparr>c_id = c1, c_title = ''To Do'', c_order = 0, projects = []\<rparr>,
                       \<lparr>c_id = c2, c_title = ''In Progress'', c_order = 1, projects = []\<rparr>,
                       \<lparr>c_id = c3, c_title = ''Done'', c_order = 2, projects = []\<rparr>]\<rparr>;
          w5 = w4\<lparr>boards := boards w4 @ [board], currentBoardId := Some bid\<rparr>
      in (board, showToast ''Board created successfully'' (saveData w5)))"

text \<open>
  The partial-fields argument of an update: \<open>None\<close> where the property is absent. For a board
  and for a column it ranges over all properties of the entity, since \<^verbatim>\<open>Object.assign\<close> copies
  whatever it is given. For a project it ranges over the three properties that
  \<^verbatim>\<open>updateProject\<close> tracks, which are the ones its caller passes.
\<close>

record board_updates =
  upd_b_id :: "string option"
  upd_name :: "string option"
  upd_projectIdPrefix :: "string option"
  upd_b_description :: "string option"
  upd_columns :: "column list option"

record column_updates =
  upd_c_id :: "string option"
  upd_title :: "string option"
  upd_order :: "int option"
  upd_projects :: "project list option"

record project_updates =
  upd_projectName :: "string option"
  upd_projectId :: "string option"
  upd_description :: "string option"

definition or_else :: "'a option \<Rightarrow> 'a \<Rightarrow> 'a" where
  "or_else u v = (case u of None \<Rightarrow> v | Some x \<Rightarrow> x)"

text \<open>\<^verbatim>\<open>Object.assign(target, updates)\<close>\<close>

definition assign_board :: "board_updates \<Rightarrow> board \<Rightarrow> board" where
  "assign_board u b =
     b\<lparr>b_id := or_else (upd_b_id u) (b_id b),
       b_name := or_else (upd_name u) (b_name b),
       projectIdPrefix := or_else (upd_projectIdPrefix u) (projectIdPrefix b),
       b_description := or_else (upd_b_description u) (b_description b),
       columns := or_else (upd_columns u) (columns b)\<rparr>"

definition assign_column :: "column_updates \<Rightarrow> column \<Rightarrow> column" where
  "assign_column u c =
     c\<lparr>c_id := or_else (upd_c_id u) (c_id c),
       c_title := or_else (upd_title u) (c_title c),
       c_order := or_else (upd_order u) (c_order c),
       projects := or_else (upd_projects u) (projects c)\<rparr>"

definition assign_project :: "project_updates \<Rightarrow> project \<Rightarrow> project" where
  "assign_project u p =
     p\<lparr>projectName := or_else (upd_projectName u) (projectName p),
       projectId := or_else (upd_projectId u) (projectId p),
       p_description := or_else (upd_description u) (p_description p)\<rparr>"

definition updateBoard :: "string \<Rightarrow> board_updates \<Rightarrow> world \<Rightarrow> world" where
  "updateBoard boardId updates w =
     (case find_board boardId w of None \<Rightarrow> w | Some board \<Rightarrow>
        saveData (with_board boardId (assign_board updates) w))"

definition deleteBoard :: "string \<Rightarrow> world \<Rightarrow> world" where
  "deleteBoard boardId w =
     (case findIndex (\<lambda>b. b_id b = boardId) (boards w) of None \<Rightarrow> w | Some index \<Rightarrow>
        (let w1 = w\<lparr>boards := snd (splice_delete1 (int index) (boards w))\<rparr>;
             w2 = (if currentBoardId w1 = Some boardId
                   then w1\<lparr>currentBoardId :=
                          (case boards w1 of [] \<Rightarrow> None | b # _ \<Rightarrow> Some (b_id b))\<rparr>
                   else w1)
         in showToast ''Board deleted'' (saveData w2)))"

definition createColumn :: "string \<Rightarrow> string \<Rightarrow> world \<Rightarrow> column option \<times> world" where
  "createColumn boardId title' w =
     (case find_board boardId w of None \<Rightarrow> (None, w) | Some board \<Rightarrow>
        (let (cid, w1) = generateId ''col'' w;
             column = \<lparr>c_id = cid, c_title = title', c_order = int (length (columns board)),
                       projects = []\<rparr>;
             w2 = with_board boardId (\<lambda>b. b\<lparr>columns := columns b @ [column]\<rparr>) w1
         in (Some column, showToast ''Column added'' (saveData w2))))"

definition updateColumn :: "string \<Rightarrow> string \<Rightarrow> column_updates \<Rightarrow> world \<Rightarrow> world" where
  "updateColumn boardId columnId updates w =
     (case find_board boardId w of None \<Rightarrow> w | Some board \<Rightarrow>
     (case find_column columnId board of None \<Rightarrow> w | Some column \<Rightarrow>
        saveData (with_column boardId columnId (assign_column updates) w)))"

text \<open>\<^verbatim>\<open>cols.forEach((col, idx) => col.order = idx)\<close>\<close>

definition renumber :: "column list \<Rightarrow> column list" where
  "renumber cols = map (\<lambda>(idx, col). col\<lparr>c_order := int idx\<rparr>) (enumerate 0 cols)"

definition deleteColumn :: "string \<Rightarrow> string \<Rightarrow> world \<Rightarrow> world" where
  "deleteColumn boardId columnId w =
     (case find_board boardId w of None \<Rightarrow> w | Some board \<Rightarrow>
     (case findIndex (\<lambda>c. c_id c = columnId) (columns board) of None \<Rightarrow> w
      | Some columnIndex \<Rightarrow>
        (let w1 = with_board boardId
                    (\<lambda>b. b\<lparr>columns :=
                            renumber (snd (splice_delete1 (int columnIndex) (columns b)))\<rparr>) w
         in showToast ''Column deleted'' (saveData w1))))"

text \<open>
  \<^verbatim>\<open>reorderColumns\<close>: when \<^verbatim>\<open>splice(fromIndex, 1)\<close> removes nothing, \<^verbatim>\<open>removed\<close> is
  \<^verbatim>\<open>undefined\<close>; it is inserted all the same at the splice position of \<^verbatim>\<open>toIndex\<close>, and the
  renumbering loop, having set the order of the columns before that position, throws a
  TypeError when it reaches it (before anything is saved).
\<close>

definition reorderColumns :: "string \<Rightarrow> int \<Rightarrow> int \<Rightarrow> world \<Rightarrow> error + world" where
  "reorderColumns boardId fromIndex toIndex w =
     (case find_board boardId w of None \<Rightarrow> Inr w | Some board \<Rightarrow>
        (let (removed, rest) = splice_delete1 fromIndex (columns board)
         in (case removed of
               [] \<Rightarrow>
                 (let k = relative_start toIndex (length rest)
                  in Inl (TypeError
                            (with_board boardId
                               (\<lambda>b. b\<lparr>columns := renumber (take k rest) @ drop k rest\<rparr>) w)
                            k))
             | col # _ \<Rightarrow>
                 Inr (saveData
                        (with_board boardId
                           (\<lambda>b. b\<lparr>columns := renumber (splice_insert toIndex col rest)\<rparr>) w)))))"

section \<open>Project operations\<close>

text \<open>
  The regular expression \<^verbatim>\<open>/-?(\d+)$/\<close> matches when the string ends in a digit, and its
  group is then the longest run of digits at the end (the leftmost match starts at that run,
  or at a hyphen just before it). \<^verbatim>\<open>parseInt\<close> reads the run as a decimal number and
  returns the double nearest to it (for a run of more than 20 digits the language lets an
  implementation read the digits after the 20th as zeros; the exact reading is taken here).
\<close>

definition is_digit :: "char \<Rightarrow> bool" where
  "is_digit c = (48 \<le> (of_char c :: nat) \<and> (of_char c :: nat) \<le> 57)"

definition digit_val :: "char \<Rightarrow> nat" where
  "digit_val c = of_char c - 48"

definition trailing_digits :: "string \<Rightarrow> string" where
  "trailing_digits s = rev (takeWhile is_digit (rev s))"

text \<open>The natural number a run of digits denotes.\<close>

definition decimal_value :: "string \<Rightarrow> nat" where
  "decimal_value ds = foldl (\<lambda>n c. 10 * n + digit_val c) 0 ds"

definition parseInt :: "string \<Rightarrow> number" where
  "parseInt ds = to_double (decimal_value ds)"

definition match_number :: "string \<Rightarrow> number option" where
  "match_number s =
     (let ds = trailing_digits s in if ds = [] then None else Some (parseInt ds))"

definition getNextProjectNumber :: "string \<Rightarrow> world \<Rightarrow> number" where
  "getNextProjectNumber boardId w =
     (case find_board boardId w of None \<Rightarrow> Finite 1 | Some board \<Rightarrow>
        plus_one
          (foldl (\<lambda>maxNumber column.
                    foldl (\<lambda>maxNumber project.
                             (case match_number (projectId project) of
                                None \<Rightarrow> maxNumber
                              | Some num \<Rightarrow> if greater num maxNumber then num else maxNumber))
                          maxNumber (projects column))
                 (Finite 0) (columns board)))"

text \<open>
  \<^verbatim>\<open>createProject\<close> returns the project object it pushed; by then \<^verbatim>\<open>logActivity\<close> may have
  added the creation record to it, so the value returned is the last project of the column.
\<close>

definition createProject :: "string \<Rightarrow> string \<Rightarrow> world \<Rightarrow> project option \<times> world" where
  "createProject boardId columnId w =
     (case find_board boardId w of None \<Rightarrow> (None, w) | Some board \<Rightarrow>
     (case find_column columnId board of None \<Rightarrow> (None, w) | Some column \<Rightarrow>
        (let projectNumber = getNextProjectNumber boardId w;
             (pid, w1) = generateId ''proj'' w;
             project = \<lparr>p_id = pid,
                        projectId = projectIdPrefix board @ ''-''
                                    @ padStart3 (Number_toString projectNumber w),
                        projectName = ''New Project'', p_description = [],
                        links = [], comments = [], activityLog = Some []\<rparr>;
             w2 = with_column boardId columnId (\<lambda>c. c\<lparr>projects := projects c @ [project]\<rparr>) w1;
             w3 = logActivity boardId columnId pid ''created'' ''Project created'' Null Null w2;
             pushed = (case find_board boardId w3 of None \<Rightarrow> project | Some b \<Rightarrow>
                      (case find_column columnId b of None \<Rightarrow> project | Some c \<Rightarrow>
                         last (projects c)))
         in (Some pushed, saveData w3))))"

definition updateProject ::
  "string \<Rightarrow> string \<Rightarrow> string \<Rightarrow> project_updates \<Rightarrow> world \<Rightarrow> world" where
  "updateProject boardId columnId projectId' updates w =
     (case find_board boardId w of None \<Rightarrow> w | Some board \<Rightarrow>
     (case find_column columnId board of None \<Rightarrow> w | Some column \<Rightarrow>
     (case find_project projectId' column of None \<Rightarrow> w | Some project \<Rightarrow>
        (let w1 = (case upd_projectName updates of
                     None \<Rightarrow> w
                   | Some newName \<Rightarrow>
                       if newName \<noteq> [] \<and> newName \<noteq> projectName project
                       then logActivity boardId columnId projectId' ''name_changed''
                              ''Project name changed'' (Str (projectName project)) (Str newName) w
                       else w);
             w2 = (case upd_projectId updates of
                     None \<Rightarrow> w1
                   | Some newId \<Rightarrow>
                       if newId \<noteq> [] \<and> newId \<noteq> projectId project
                       then logActivity boardId columnId projectId' ''id_changed''
                              ''Project ID changed'' (Str (projectId project)) (Str newId) w1
                       else w1);
             w3 = (case upd_description updates of
                     None \<Rightarrow> w2
                   | Some newDesc \<Rightarrow>
                       if newDesc \<noteq> p_description project
                       then logActivity boardId columnId projectId' ''description_updated''
                              ''Description updated'' (Str (p_description project)) (Str newDesc) w2
                       else w2)
         in saveData (with_project boardId columnId projectId' (assign_project updates) w3)))))"

definition deleteProject :: "string \<Rightarrow> string \<Rightarrow> string \<Rightarrow> world \<Rightarrow> world" where
  "deleteProject boardId columnId projectId' w =
     (case find_board boardId w of None \<Rightarrow> w | Some board \<Rightarrow>
     (case find_column columnId board of None \<Rightarrow> w | Some column \<Rightarrow>
     (case findIndex (\<lambda>p. p_id p = projectId') (projects column) of None \<Rightarrow> w
      | Some projectIndex \<Rightarrow>
        (let w1 = with_column boardId columnId
                    (\<lambda>c. c\<lparr>projects := snd (splice_delete1 (int projectIndex) (projects c))\<rparr>) w
         in showToast ''Project deleted'' (saveData w1)))))"

text \<open>
  \<^verbatim>\<open>moveProject\<close>: both branches need both columns; the first is for two different column ids
  and logs the move on the destination column's project of that id, the second reorders within
  one column and logs nothing.
\<close>

definition moveProject ::
  "string \<Rightarrow> string \<Rightarrow> string \<Rightarrow> string \<Rightarrow> int \<Rightarrow> world \<Rightarrow> world" where
  "moveProject boardId fromColumnId toColumnId projectId' toIndex w =
     (case find_board boardId w of None \<Rightarrow> w | Some board \<Rightarrow>
     (case find_column fromColumnId board of None \<Rightarrow> w | Some fromColumn \<Rightarrow>
     (case find_column toColumnId board of None \<Rightarrow> w | Some toColumn \<Rightarrow>
     (case findIndex (\<lambda>p. p_id p = projectId') (projects fromColumn) of None \<Rightarrow> w
      | Some projectIndex \<Rightarrow>
        (let project = projects fromColumn ! projectIndex
         in if fromColumnId \<noteq> toColumnId
            then
              (let w1 = with_column boardId fromColumnId
                          (\<lambda>c. c\<lparr>projects :=
                                  snd (splice_delete1 (int projectIndex) (projects c))\<rparr>) w;
                   w2 = with_column boardId toColumnId
                          (\<lambda>c. c\<lparr>projects := splice_insert toIndex project (projects c)\<rparr>) w1;
                   w3 = logActivity boardId toColumnId projectId' ''moved''
                          (''Moved from '' @ [CHR 0x27] @ c_title fromColumn @ [CHR 0x27]
                           @ '' to '' @ [CHR 0x27] @ c_title toColumn @ [CHR 0x27])
                          Null Null w2
               in saveData w3)
            else
              (let w1 = with_column boardId fromColumnId
                          (\<lambda>c. c\<lparr>projects :=
                                  splice_insert toIndex project
                                    (snd (splice_delete1 (int projectIndex) (projects c)))\<rparr>) w
               in saveData w1))))))"

section \<open>Link and comment operations\<close>

definition addLink ::
  "string \<Rightarrow> string \<Rightarrow> string \<Rightarrow> string \<Rightarrow> string \<Rightarrow> world \<Rightarrow> link option \<times> world" where
  "addLink boardId columnId projectId' url' title' w =
     (case find_board boardId w of None \<Rightarrow> (None, w) | Some board \<Rightarrow>
     (case find_column columnId board of None \<Rightarrow> (None, w) | Some column \<Rightarrow>
     (case find_project projectId' column of None \<Rightarrow> (None, w) | Some project \<Rightarrow>
        (let (lid, w1) = generateId ''link'' w;
             (now, w2) = Date_now w1;
             link = \<lparr>l_id = lid, url = url', l_title = title', l_timestamp = DateObject now\<rparr>;
             w3 = with_project boardId columnId projectId'
                    (\<lambda>p. p\<lparr>links := links p @ [link]\<rparr>) w2;
             w4 = logActivity boardId columnId projectId' ''link_added''
                    (link_sign @ '' Link added'') Null
                    (Obj [(''title'', title'), (''url'', url')]) w3
         in (Some link, showToast ''Link added'' (saveData w4))))))"

definition updateLink ::
  "string \<Rightarrow> string \<Rightarrow> string \<Rightarrow> string \<Rightarrow> string \<Rightarrow> string \<Rightarrow> world \<Rightarrow> world" where
  "updateLink boardId columnId projectId' linkId url' title' w =
     (case find_board boardId w of None \<Rightarrow> w | Some board \<Rightarrow>
     (case find_column columnId board of None \<Rightarrow> w | Some column \<Rightarrow>
     (case find_project projectId' column of None \<Rightarrow> w | Some project \<Rightarrow>
     (case find (\<lambda>l. l_id l = linkId) (links project) of None \<Rightarrow> w | Some link \<Rightarrow>
        (let oldTitle = l_title link;
             oldUrl = url link;
             (now, w1) = Date_now w;
             w2 = with_project boardId columnId projectId'
                    (\<lambda>p. p\<lparr>links := modify_first (\<lambda>l. l_id l = linkId)
                                       (\<lambda>l. l\<lparr>url := url', l_title := title',
                                             l_timestamp := DateObject now\<rparr>)
                                       (links p)\<rparr>) w1;
             titleChanged = (oldTitle \<noteq> title');
             urlChanged = (oldUrl \<noteq> url');
             w3 = (if titleChanged \<and> urlChanged
                   then logActivity boardId columnId projectId' ''link_updated''
                          (pencil_sign @ '' Link updated'')
                          (Obj [(''title'', oldTitle), (''url'', oldUrl)])
                          (Obj [(''title'', title'), (''url'', url')]) w2
                   else if titleChanged
                   then logActivity boardId columnId projectId' ''link_title_updated''
                          (pencil_sign @ '' Link title updated'')
                          (Obj [(''oldTitle'', oldTitle), (''url'', url')])
                          (Obj [(''newTitle'', title'), (''url'', url')]) w2
                   else if urlChanged
                   then logActivity boardId columnId projectId' ''link_url_updated''
                          (pencil_sign @ '' Link URL updated'')
                          (Obj [(''title'', title'), (''oldUrl'', oldUrl)])
                          (Obj [(''title'', title'), (''newUrl'', url')]) w2
                   else w2)
         in showToast ''Link updated'' (saveData w3))))))"

definition deleteLink :: "string \<Rightarrow> string \<Rightarrow> string \<Rightarrow> string \<Rightarrow> world \<Rightarrow> world" where
  "deleteLink boardId columnId projectId' linkId w =
     (case find_board boardId w of None \<Rightarrow> w | Some board \<Rightarrow>
     (case find_column columnId board of None \<Rightarrow> w | Some column \<Rightarrow>
     (case find_project projectId' column of None \<Rightarrow> w | Some project \<Rightarrow>
     (case findIndex (\<lambda>l. l_id l = linkId) (links project) of None \<Rightarrow> w
      | Some linkIndex \<Rightarrow>
        (let link = links project ! linkIndex;
             w1 = logActivity boardId columnId projectId' ''link_deleted''
                    (wastebasket_sign @ '' Link deleted'')
                    (Obj [(''title'', l_title link), (''url'', url link)]) Null w;
             w2 = with_project boardId columnId projectId'
                    (\<lambda>p. p\<lparr>links := snd (splice_delete1 (int linkIndex) (links p))\<rparr>) w1
         in showToast ''Link deleted'' (saveData w2))))))"

definition addComment ::
  "string \<Rightarrow> string \<Rightarrow> string \<Rightarrow> string \<Rightarrow> world \<Rightarrow> comment option \<times> world" where
  "addComment boardId columnId projectId' text' w =
     (case find_board boardId w of None \<Rightarrow> (None, w) | Some board \<Rightarrow>
     (case find_column columnId board of None \<Rightarrow> (None, w) | Some column \<Rightarrow>
     (case find_project projectId' column of None \<Rightarrow> (None, w) | Some project \<Rightarrow>
        (let (cid, w1) = generateId ''comment'' w;
             (now, w2) = Date_now w1;
             comment = \<lparr>cm_id = cid, cm_text = text', cm_timestamp = DateObject now\<rparr>;
             w3 = with_project boardId columnId projectId'
                    (\<lambda>p. p\<lparr>comments := comments p @ [comment]\<rparr>) w2;
             w4 = logActivity boardId columnId projectId' ''comment_added''
                    (speech_sign @ '' Comment added'') Null (Str text') w3
         in (Some comment, showToast ''Comment added'' (saveData w4))))))"

definition updateComment ::
  "string \<Rightarrow> string \<Rightarrow> string \<Rightarrow> string \<Rightarrow> string \<Rightarrow> world \<Rightarrow> world" where
  "updateComment boardId columnId projectId' commentId text' w =
     (case find_board boardId w of None \<Rightarrow> w | Some board \<Rightarrow>
     (case find_column columnId board of None \<Rightarrow> w | Some column \<Rightarrow>
     (case find_project projectId' column of None \<Rightarrow> w | Some project \<Rightarrow>
     (case find (\<lambda>c. cm_id c = commentId) (comments project) of None \<Rightarrow> w | Some comment \<Rightarrow>
        (let oldText = cm_text comment;
             (now, w1) = Date_now w;
             w2 = with_project boardId columnId projectId'
                    (\<lambda>p. p\<lparr>comments := modify_first (\<lambda>c. cm_id c = commentId)
                                          (\<lambda>c. c\<lparr>cm_text := text', cm_timestamp := DateObject now\<rparr>)
                                          (comments p)\<rparr>) w1;
             w3 = logActivity boardId columnId projectId' ''comment_updated''
                    (pencil_sign @ '' Comment edited'') (Str oldText) (Str text') w2
         in showToast ''Comment updated'' (saveData w3))))))"

definition deleteComment :: "string \<Rightarrow> string \<Rightarrow> string \<Rightarrow> string \<Rightarrow> world \<Rightarrow> world" where
  "deleteComment boardId columnId projectId' commentId w =
     (case find_board boardId w of None \<Rightarrow> w | Some board \<Rightarrow>
     (case find_column columnId board of None \<Rightarrow> w | Some column \<Rightarrow>
     (case find_project projectId' column of None \<Rightarrow> w | Some project \<Rightarrow>
     (case findIndex (\<lambda>c. cm_id c = commentId) (comments project) of None \<Rightarrow> w
      | Some commentIndex \<Rightarrow>
        (let comment = comments project ! commentIndex;
             w1 = logActivity boardId columnId projectId' ''comment_deleted''
                    (wastebasket_sign @ '' Comment deleted'') (Str (cm_text comment)) Null w;
             w2 = with_project boardId columnId projectId'
                    (\<lambda>p. p\<lparr>comments := snd (splice_delete1 (int commentIndex) (comments p))\<rparr>) w1
         in showToast ''Comment deleted'' (saveData w2))))))"

section \<open>The store's operations as one interface\<close>

text \<open>One constructor per operation of the store, with the arguments of the call.\<close>

datatype op =
    CreateBoard string string string
  | UpdateBoard string board_updates
  | DeleteBoard string
  | CreateColumn string string
  | UpdateColumn string string column_updates
  | DeleteColumn string string
  | ReorderColumns string int int
  | CreateProject string string
  | UpdateProject string string string project_updates
  | DeleteProject string string string
  | MoveProject string string string string int
  | AddLink string string string string string
  | UpdateLink string string string string string string
  | DeleteLink string string string string
  | AddComment string string string string
  | UpdateComment string string string string string
  | DeleteComment string string string string
  | LogActivity string string string string string jsval jsval

text \<open>Running a call: the world afterwards, or the exception it throws.\<close>

fun perform :: "op \<Rightarrow> world \<Rightarrow> error + world" where
  "perform (CreateBoard name prefix descr) w = Inr (snd (createBoard name prefix descr w))"
| "perform (UpdateBoard boardId updates) w = Inr (updateBoard boardId updates w)"
| "perform (DeleteBoard boardId) w = Inr (deleteBoard boardId w)"
| "perform (CreateColumn boardId title') w = Inr (snd (createColumn boardId title' w))"
| "perform (UpdateColumn boardId columnId updates) w =
     Inr (updateColumn boardId columnId updates w)"
| "perform (DeleteColumn boardId columnId) w = Inr (deleteColumn boardId columnId w)"
| "perform (ReorderColumns boardId fromIndex toIndex) w =
     reorderColumns boardId fromIndex toIndex w"
| "perform (CreateProject boardId columnId) w = Inr (snd (createProject boardId columnId w))"
| "perform (UpdateProject boardId columnId projectId' updates) w =
     Inr (updateProject boardId columnId projectId' updates w)"
| "perform (DeleteProject boardId columnId projectId') w =
     Inr (deleteProject boardId columnId projectId' w)"
| "perform (MoveProject boardId fromColumnId toColumnId projectId' toIndex) w =
     Inr (moveProject boardId fromColumnId toColumnId projectId' toIndex w)"
| "perform (AddLink boardId columnId projectId' url' title') w =
     Inr (snd (addLink boardId columnId projectId' url' title' w))"
| "perform (UpdateLink boardId columnId projectId' linkId url' title') w =
     Inr (updateLink boardId columnId projectId' linkId url' title' w)"
| "perform (DeleteLink boardId columnId projectId' linkId) w =
     Inr (deleteLink boardId columnId projectId' linkId w)"
| "perform (AddComment boardId columnId projectId' text') w =
     Inr (snd (addComment boardId columnId projectId' text' w))"
| "perform (UpdateComment boardId columnId projectId' commentId text') w =
     Inr (updateComment boardId columnId projectId' commentId text' w)"
| "perform (DeleteComment boardId columnId projectId' commentId) w =
     Inr (deleteComment boardId columnId projectId' commentId w)"
| "perform (LogActivity boardId columnId projectId' act descr oldV newV) w =
     Inr (logActivity boardId columnId projectId' act descr oldV newV w)"

subsection \<open>Resolving an id chain\<close>

definition resolve_column :: "string \<Rightarrow> string \<Rightarrow> world \<Rightarrow> column option" where
  "resolve_column boardId columnId w =
     (case find_board boardId w of None \<Rightarrow> None | Some b \<Rightarrow> find_column columnId b)"

definition resolve_project :: "string \<Rightarrow> string \<Rightarrow> string \<Rightarrow> world \<Rightarrow> project option" where
  "resolve_project boardId columnId projectId' w =
     (case resolve_column boardId columnId w of None \<Rightarrow> None
      | Some c \<Rightarrow> find_project projectId' c)"

definition resolve_link :: "string \<Rightarrow> string \<Rightarrow> string \<Rightarrow> string \<Rightarrow> world \<Rightarrow> link option" where
  "resolve_link boardId columnId projectId' linkId w =
     (case resolve_project boardId columnId projectId' w of None \<Rightarrow> None
      | Some p \<Rightarrow> find (\<lambda>l. l_id l = linkId) (links p))"

definition resolve_comment ::
  "string \<Rightarrow> string \<Rightarrow> string \<Rightarrow> string \<Rightarrow> world \<Rightarrow> comment option" where
  "resolve_comment boardId columnId projectId' commentId w =
     (case resolve_project boardId columnId projectId' w of None \<Rightarrow> None
      | Some p \<Rightarrow> find (\<lambda>c. cm_id c = commentId) (comments p))"

text \<open>
  Whether every id a call names resolves to an entity at its level. \<^verbatim>\<open>createBoard\<close> names
  none; \<^verbatim>\<open>moveProject\<close> names two columns and a project of the source column.
\<close>

fun resolves :: "op \<Rightarrow> world \<Rightarrow> bool" where
  "resolves (CreateBoard name prefix descr) w = True"
| "resolves (UpdateBoard boardId updates) w = (find_board boardId w \<noteq> None)"
| "resolves (DeleteBoard boardId) w = (find_board boardId w \<noteq> None)"
| "resolves (CreateColumn boardId title') w = (find_board boardId w \<noteq> None)"
| "resolves (UpdateColumn boardId columnId updates) w =
     (resolve_column boardId columnId w \<noteq> None)"
| "resolves (DeleteColumn boardId columnId) w = (resolve_column boardId columnId w \<noteq> None)"
| "resolves (ReorderColumns boardId fromIndex toIndex) w = (find_board boardId w \<noteq> None)"
| "resolves (CreateProject boardId columnId) w = (resolve_column boardId columnId w \<noteq> None)"
| "resolves (UpdateProject boardId columnId projectId' updates) w =
     (resolve_project boardId columnId projectId' w \<noteq> None)"
| "resolves (DeleteProject boardId columnId projectId') w =
     (resolve_project boardId columnId projectId' w \<noteq> None)"
| "resolves (MoveProject boardId fromColumnId toColumnId projectId' toIndex) w =
     (resolve_project boardId fromColumnId projectId' w \<noteq> None
      \<and> resolve_column boardId toColumnId w \<noteq> None)"
| "resolves (AddLink boardId columnId projectId' url' title') w =
     (resolve_project boardId columnId projectId' w \<noteq> None)"
| "resolves (UpdateLink boardId columnId projectId' linkId url' title') w =
     (resolve_link boardId columnId projectId' linkId w \<noteq> None)"
| "resolves (DeleteLink boardId columnId projectId' linkId) w =
     (resolve_link boardId columnId projectId' linkId w \<noteq> None)"
| "resolves (AddComment boardId columnId projectId' text') w =
     (resolve_project boardId columnId projectId' w \<noteq> None)"
| "resolves (UpdateComment boardId columnId projectId' commentId text') w =
     (resolve_comment boardId columnId projectId' commentId w \<noteq> None)"
| "resolves (DeleteComment boardId columnId projectId' commentId) w =
     (resolve_comment boardId columnId projectId' commentId w \<noteq> None)"
| "resolves (LogActivity boardId columnId projectId' act descr oldV newV) w =
     (resolve_project boardId columnId projectId' w \<noteq> None)"

section \<open>Import and export\<close>

text \<open>
  A parsed JSON value. Numbers are integers here (the documents of this program carry counts,
  orders and instants). An object lists its properties in order, each key once.
\<close>

datatype json =
    JNull | JBool bool | JNum int | JStr string | JArr "json list" | JObj "(string \<times> json) list"

text \<open>\<^verbatim>\<open>v.k\<close> for a value other than \<^verbatim>\<open>null\<close>: \<open>None\<close> is \<^verbatim>\<open>undefined\<close>.\<close>

definition get_prop :: "json \<Rightarrow> string \<Rightarrow> json option" where
  "get_prop v k = (case v of JObj kvs \<Rightarrow> map_of kvs k | _ \<Rightarrow> None)"

subsection \<open>The store's tree as JSON\<close>

definition enc_jsval :: "jsval \<Rightarrow> json" where
  "enc_jsval v =
     (case v of Null \<Rightarrow> JNull | Str s \<Rightarrow> JStr s
      | Obj kvs \<Rightarrow> JObj (map (\<lambda>(k, x). (k, JStr x)) kvs))"

definition enc_activity :: "activity \<Rightarrow> json" where
  "enc_activity a =
     JObj [(''id'', JStr (a_id a)), (''action'', JStr (action a)),
           (''description'', JStr (a_description a)), (''timestamp'', JNum (int (a_timestamp a))),
           (''oldValue'', enc_jsval (oldValue a)), (''newValue'', enc_jsval (newValue a))]"

text \<open>A \<^verbatim>\<open>Date\<close> is written by its \<^verbatim>\<open>toJSON\<close>, that is as its ISO string (\<open>isoOf\<close>).\<close>

definition enc_stamp :: "(nat \<Rightarrow> string) \<Rightarrow> stamp \<Rightarrow> json" where
  "enc_stamp isoOf t = (case t of DateObject n \<Rightarrow> JStr (isoOf n) | DateString s \<Rightarrow> JStr s)"

definition enc_link :: "(nat \<Rightarrow> string) \<Rightarrow> link \<Rightarrow> json" where
  "enc_link isoOf l =
     JObj [(''id'', JStr (l_id l)), (''url'', JStr (url l)), (''title'', JStr (l_title l)),
           (''timestamp'', enc_stamp isoOf (l_timestamp l))]"

definition enc_comment :: "(nat \<Rightarrow> string) \<Rightarrow> comment \<Rightarrow> json" where
  "enc_comment isoOf c =
     JObj [(''id'', JStr (cm_id c)), (''text'', JStr (cm_text c)),
           (''timestamp'', enc_stamp isoOf (cm_timestamp c))]"

definition enc_project :: "(nat \<Rightarrow> string) \<Rightarrow> project \<Rightarrow> json" where
  "enc_project isoOf p =
     JObj ([(''id'', JStr (p_id p)), (''projectId'', JStr (projectId p)),
            (''projectName'', JStr (projectName p)), (''description'', JStr (p_description p)),
            (''links'', JArr (map (enc_link isoOf) (links p))),
            (''comments'', JArr (map (enc_comment isoOf) (comments p)))]
           @ (case activityLog p of None \<Rightarrow> []
              | Some l \<Rightarrow> [(''activityLog'', JArr (map enc_activity l))]))"

definition enc_column :: "(nat \<Rightarrow> string) \<Rightarrow> column \<Rightarrow> json" where
  "enc_column isoOf c =
     JObj [(''id'', JStr (c_id c)), (''title'', JStr (c_title c)), (''order'', JNum (c_order c)),
           (''projects'', JArr (map (enc_project isoOf) (projects c)))]"

definition enc_board :: "(nat \<Rightarrow> string) \<Rightarrow> board \<Rightarrow> json" where
  "enc_board isoOf b =
     JObj [(''id'', JStr (b_id b)), (''name'', JStr (b_name b)),
           (''projectIdPrefix'', JStr (projectIdPrefix b)),
           (''description'', JStr (b_description b)),
           (''columns'', JArr (map (enc_column isoOf) (columns b)))]"

text \<open>
  Reading a parsed value as the typed tree. The source keeps whatever \<^verbatim>\<open>JSON.parse\<close> returned;
  the typed store can hold a value only when it has the shape of the data model, so the
  readers answer \<open>None\<close> for any other.
\<close>

definition str_prop :: "json \<Rightarrow> string \<Rightarrow> string option" where
  "str_prop v k = (case get_prop v k of Some (JStr s) \<Rightarrow> Some s | _ \<Rightarrow> None)"

definition nat_prop :: "json \<Rightarrow> string \<Rightarrow> nat option" where
  "nat_prop v k =
     (case get_prop v k of Some (JNum n) \<Rightarrow> if 0 \<le> n then Some (nat n) else None | _ \<Rightarrow> None)"

definition stamp_prop :: "json \<Rightarrow> string \<Rightarrow> stamp option" where
  "stamp_prop v k = (case get_prop v k of Some (JStr s) \<Rightarrow> Some (DateString s) | _ \<Rightarrow> None)"

definition int_prop :: "json \<Rightarrow> string \<Rightarrow> int option" where
  "int_prop v k = (case get_prop v k of Some (JNum n) \<Rightarrow> Some n | _ \<Rightarrow> None)"

definition dec_list :: "(json \<Rightarrow> 'a option) \<Rightarrow> json option \<Rightarrow> 'a list option" where
  "dec_list dec v = (case v of Some (JArr js) \<Rightarrow> those (map dec js) | _ \<Rightarrow> None)"

definition dec_string_value :: "json \<Rightarrow> string option" where
  "dec_string_value v = (case v of JStr s \<Rightarrow> Some s | _ \<Rightarrow> None)"

definition dec_jsval :: "json option \<Rightarrow> jsval option" where
  "dec_jsval v =
     (case v of
        Some JNull \<Rightarrow> Some Null
      | Some (JStr s) \<Rightarrow> Some (Str s)
      | Some (JObj kvs) \<Rightarrow>
          map_option (\<lambda>xs. Obj (zip (map fst kvs) xs)) (those (map (dec_string_value \<circ> snd) kvs))
      | _ \<Rightarrow> None)"

definition dec_activity :: "json \<Rightarrow> activity option" where
  "dec_activity v = do {
     i \<leftarrow> str_prop v ''id'';
     a \<leftarrow> str_prop v ''action'';
     d \<leftarrow> str_prop v ''description'';
     t \<leftarrow> nat_prop v ''timestamp'';
     ov \<leftarrow> dec_jsval (get_prop v ''oldValue'');
     nv \<leftarrow> dec_jsval (get_prop v ''newValue'');
     Some \<lparr>a_id = i, action = a, a_description = d, a_timestamp = t, oldValue = ov, newValue = nv\<rparr>
   }"

definition dec_link :: "json \<Rightarrow> link option" where
  "dec_link v = do {
     i \<leftarrow> str_prop v ''id'';
     u \<leftarrow> str_prop v ''url'';
     t \<leftarrow> str_prop v ''title'';
     ts \<leftarrow> stamp_prop v ''timestamp'';
     Some \<lparr>l_id = i, url = u, l_title = t, l_timestamp = ts\<rparr>
   }"

definition dec_comment :: "json \<Rightarrow> comment option" where
  "dec_comment v = do {
     i \<leftarrow> str_prop v ''id'';
     t \<leftarrow> str_prop v ''text'';
     ts \<leftarrow> stamp_prop v ''timestamp'';
     Some \<lparr>cm_id = i, cm_text = t, cm_timestamp = ts\<rparr>
   }"

definition dec_activityLog :: "json option \<Rightarrow> activity list option option" where
  "dec_activityLog v =
     (case v of None \<Rightarrow> Some None | Some JNull \<Rightarrow> Some None
      | _ \<Rightarrow> map_option Some (dec_list dec_activity v))"

definition dec_project :: "json \<Rightarrow> project option" where
  "dec_project v = do {
     i \<leftarrow> str_prop v ''id'';
     pid \<leftarrow> str_prop v ''projectId'';
     n \<leftarrow> str_prop v ''projectName'';
     d \<leftarrow> str_prop v ''description'';
     ls \<leftarrow> dec_list dec_link (get_prop v ''links'');
     cs \<leftarrow> dec_list dec_comment (get_prop v ''comments'');
     al \<leftarrow> dec_activityLog (get_prop v ''activityLog'');
     Some \<lparr>p_id = i, projectId = pid, projectName = n, p_description = d, links = ls,
           comments = cs, activityLog = al\<rparr>
   }"

definition dec_column :: "json \<Rightarrow> column option" where
  "dec_column v = do {
     i \<leftarrow> str_prop v ''id'';
     t \<leftarrow> str_prop v ''title'';
     ord \<leftarrow> int_prop v ''order'';
     ps \<leftarrow> dec_list dec_project (get_prop v ''projects'');
     Some \<lparr>c_id = i, c_title = t, c_order = ord, projects = ps\<rparr>
   }"

definition dec_board :: "json \<Rightarrow> board option" where
  "dec_board v = do {
     i \<leftarrow> str_prop v ''id'';
     n \<leftarrow> str_prop v ''name'';
     pre \<leftarrow> str_prop v ''projectIdPrefix'';
     d \<leftarrow> str_prop v ''description'';
     cs \<leftarrow> dec_list dec_column (get_prop v ''columns'');
     Some \<lparr>b_id = i, b_name = n, projectIdPrefix = pre, b_description = d, columns = cs\<rparr>
   }"

text \<open>\<^verbatim>\<open>currentBoardId\<close> and \<^verbatim>\<open>projectCount\<close> of a snapshot: absent or \<^verbatim>\<open>null\<close>, or of their type.\<close>

definition dec_currentBoardId :: "json option \<Rightarrow> string option option" where
  "dec_currentBoardId v =
     (case v of None \<Rightarrow> Some None | Some JNull \<Rightarrow> Some None | Some (JStr s) \<Rightarrow> Some (Some s)
      | _ \<Rightarrow> None)"

definition dec_projectCount :: "json option \<Rightarrow> int option option" where
  "dec_projectCount v =
     (case v of None \<Rightarrow> Some None | Some JNull \<Rightarrow> Some None | Some (JNum n) \<Rightarrow> Some (Some n)
      | _ \<Rightarrow> None)"

definition string_of_int :: "int \<Rightarrow> string" where
  "string_of_int i = (if i < 0 then ''-'' @ string_of_nat (nat (- i)) else string_of_nat (nat i))"

text \<open>\<^verbatim>\<open>boards.reduce((sum, b) => sum + b.columns.reduce((s, c) => s + c.projects.length, 0), 0)\<close>\<close>

definition count_projects :: "board list \<Rightarrow> nat" where
  "count_projects bs =
     foldl (\<lambda>sum b. sum + foldl (\<lambda>s c. s + length (projects c)) 0 (columns b)) 0 bs"

subsection \<open>Export to a snapshot\<close>

text \<open>
  \<^verbatim>\<open>exportToJSON\<close>: the document handed to the download (as \<^verbatim>\<open>JSON.parse\<close> reads it back), and
  the world afterwards. The clock is read for \<^verbatim>\<open>exportedAt\<close>, for \<^verbatim>\<open>exportedAtFormatted\<close>, for
  the file name, and for the \<^verbatim>\<open>lastBackupTime\<close> key when there is storage; a failing write of
  that key is only logged to the console.
\<close>

definition exportToJSON :: "world \<Rightarrow> json option \<times> world" where
  "exportToJSON w =
     (if boards w = [] then (None, showToast ''No data to export'' w)
      else
        (let projectCount = count_projects (boards w);
             (exportedAt, w1) = Date_now w;
             (t, w2) = Date_now w1;
             dataToExport =
               JObj [(''boards'', JArr (map (enc_board (toISOString w)) (boards w))),
                     (''currentBoardId'',
                        (case currentBoardId w of None \<Rightarrow> JNull | Some i \<Rightarrow> JStr i)),
                     (''exportedAt'', JNum (int exportedAt)),
                     (''exportedAtFormatted'', JStr (formatTimestamp t w2)),
                     (''version'', JStr ''1.0''),
                     (''boardCount'', JNum (int (length (boards w)))),
                     (''projectCount'', JNum (int projectCount))];
             (fileDate, w3) = Date_now w2;
             w4 = (if storageAvailable w3
                   then (let (backupTime, w') = Date_now w3
                         in if setItem w' = Stores then w'\<lparr>lastBackupTime := Some backupTime\<rparr>
                            else w')
                   else w3)
         in (Some dataToExport,
             showToast (check_mark @ '' Backup downloaded: '' @ string_of_nat (length (boards w))
                        @ '' boards, '' @ string_of_nat projectCount @ '' projects'') w4)))"

subsection \<open>Import from a snapshot\<close>

text \<open>
  \<^verbatim>\<open>importFromJSON\<close>, from the parsed document on; \<open>confirmed\<close> is the answer \<^verbatim>\<open>confirm\<close> gives
  when it is asked. Reading \<^verbatim>\<open>.boards\<close> of \<^verbatim>\<open>null\<close> throws, which the handler catches and
  reports. A document with a \<^verbatim>\<open>boards\<close> array that does not have the shape of the data model
  is outside the typed store (\<open>IllTyped\<close>).
\<close>

definition importFromJSON :: "json \<Rightarrow> bool \<Rightarrow> world \<Rightarrow> error + world" where
  "importFromJSON importedData confirmed w =
     (case importedData of
        JNull \<Rightarrow> Inr (showToast (cross_mark @ '' Error importing data. Invalid file format.'') w)
      | _ \<Rightarrow>
        (case get_prop importedData ''boards'' of
           Some (JArr bs) \<Rightarrow>
             (case (those (map dec_board bs),
                    dec_currentBoardId (get_prop importedData ''currentBoardId''),
                    dec_projectCount (get_prop importedData ''projectCount'')) of
                (Some importedBoards, Some importedCurrent, Some importedCount) \<Rightarrow>
                  (let boardCount = length importedBoards;
                       projectCount =
                         (case importedCount of
                            Some n \<Rightarrow> if n \<noteq> 0 then n else int (count_projects importedBoards)
                          | None \<Rightarrow> int (count_projects importedBoards))
                   in if boards w \<noteq> [] \<and> \<not> confirmed then Inr w
                      else
                        (let w1 = w\<lparr>boards := importedBoards, currentBoardId := importedCurrent\<rparr>;
                             w2 = saveData w1;
                             w3 = (case boards w2 of
                                     [] \<Rightarrow> w2
                                   | first # _ \<Rightarrow>
                                       (let board =
                                          (case find (\<lambda>b. Some (b_id b) = currentBoardId w2)
                                                  (boards w2) of
                                             Some b \<Rightarrow> b | None \<Rightarrow> first)
                                        in w2\<lparr>currentBoardId := Some (b_id board)\<rparr>))
                         in Inr (showToast
                                   (check_mark @ '' Imported '' @ string_of_nat boardCount
                                    @ '' boards with '' @ string_of_int projectCount
                                    @ '' projects!'') w3)))
              | _ \<Rightarrow> Inl IllTyped)
         | _ \<Rightarrow> Inr (showToast (cross_mark @ '' Invalid backup file format'') w)))"

text \<open>Whether the parsed value has a \<^verbatim>\<open>boards\<close> field that is an array.\<close>

definition has_boards_array :: "json \<Rightarrow> bool" where
  "has_boards_array v =
     (case v of JObj kvs \<Rightarrow> (case map_of kvs ''boards'' of Some (JArr bs) \<Rightarrow> True | _ \<Rightarrow> False)
      | _ \<Rightarrow> False)"

subsection \<open>Export to CSV\<close>

definition double_quote :: char where
  "double_quote = CHR 0x22"

definition newline :: char where
  "newline = CHR 0x0A"

text \<open>\<^verbatim>\<open>String(str).replace(/"/g, '""')\<close>\<close>

definition double_the_quotes :: "string \<Rightarrow> string" where
  "double_the_quotes str =
     concat (map (\<lambda>c. if c = double_quote then [double_quote, double_quote] else [c]) str)"

definition escape :: "string \<Rightarrow> string" where
  "escape str =
     (if str = [] then []
      else (let str' = double_the_quotes str
            in if CHR '','' \<in> set str' \<or> newline \<in> set str' \<or> double_quote \<in> set str'
               then [double_quote] @ str' @ [double_quote]
               else str'))"

definition csv_fields :: "board \<Rightarrow> column \<Rightarrow> project \<Rightarrow> world \<Rightarrow> string list" where
  "csv_fields board column project w =
     (let links' = join '' | '' (map (\<lambda>l. l_title l @ '': '' @ url l) (links project));
          comments' = join '' | '' (map cm_text (comments project));
          createdActivity =
            (case activityLog project of None \<Rightarrow> None
             | Some l \<Rightarrow> find (\<lambda>a. action a = ''created'') l);
          createdDate =
            (case createdActivity of None \<Rightarrow> ''Unknown''
             | Some a \<Rightarrow> formatTimestamp (a_timestamp a) w)
      in [escape (b_name board), escape (c_title column), escape (projectId project),
          escape (projectName project), escape (p_description project), escape links',
          escape comments', escape createdDate])"

definition csv_header :: string where
  "csv_header =
     ''Board Name,Column Name,Project ID,Project Name,Description,Links,Comments,Created Date''
     @ [newline]"

text \<open>\<^verbatim>\<open>exportToGoogleSheets\<close>: the CSV text handed to the download, and the world afterwards
  (the clock is read once, for the file name).\<close>

definition exportToGoogleSheets :: "world \<Rightarrow> string option \<times> world" where
  "exportToGoogleSheets w =
     (if boards w = [] then (None, showToast ''No data to export'' w)
      else
        (let csvContent =
               csv_header
               @ concat (map (\<lambda>board.
                    concat (map (\<lambda>column.
                      concat (map (\<lambda>project.
                                     join '','' (csv_fields board column project w) @ [newline])
                                  (projects column)))
                      (columns board)))
                  (boards w));
             (fileTime, w1) = Date_now w
         in (Some csvContent, showToast ''CSV exported! Upload to Google Sheets'' w1)))"

section \<open>What the claims speak about\<close>

text \<open>The \<^verbatim>\<open>boardId\<close> argument of a column, project, link or comment operation (and of
  \<^verbatim>\<open>logActivity\<close>); board-level operations have none in this sense.\<close>

fun board_of :: "op \<Rightarrow> string option" where
  "board_of (CreateBoard name prefix descr) = None"
| "board_of (UpdateBoard boardId updates) = None"
| "board_of (DeleteBoard boardId) = None"
| "board_of (CreateColumn boardId title') = Some boardId"
| "board_of (UpdateColumn boardId columnId updates) = Some boardId"
| "board_of (DeleteColumn boardId columnId) = Some boardId"
| "board_of (ReorderColumns boardId fromIndex toIndex) = Some boardId"
| "board_of (CreateProject boardId columnId) = Some boardId"
| "board_of (UpdateProject boardId columnId projectId' updates) = Some boardId"
| "board_of (DeleteProject boardId columnId projectId') = Some boardId"
| "board_of (MoveProject boardId fromColumnId toColumnId projectId' toIndex) = Some boardId"
| "board_of (AddLink boardId columnId projectId' url' title') = Some boardId"
| "board_of (UpdateLink boardId columnId projectId' linkId url' title') = Some boardId"
| "board_of (DeleteLink boardId columnId projectId' linkId) = Some boardId"
| "board_of (AddComment boardId columnId projectId' text') = Some boardId"
| "board_of (UpdateComment boardId columnId projectId' commentId text') = Some boardId"
| "board_of (DeleteComment boardId columnId projectId' commentId) = Some boardId"
| "board_of (LogActivity boardId columnId projectId' act descr oldV newV) = Some boardId"

text \<open>The \<^verbatim>\<open>projectId\<close> argument of an operation that addresses one project.\<close>

fun project_of :: "op \<Rightarrow> string option" where
  "project_of (UpdateProject boardId columnId projectId' updates) = Some projectId'"
| "project_of (DeleteProject boardId columnId projectId') = Some projectId'"
| "project_of (MoveProject boardId fromColumnId toColumnId projectId' toIndex) = Some projectId'"
| "project_of (AddLink boardId columnId projectId' url' title') = Some projectId'"
| "project_of (UpdateLink boardId columnId projectId' linkId url' title') = Some projectId'"
| "project_of (DeleteLink boardId columnId projectId' linkId) = Some projectId'"
| "project_of (AddComment boardId columnId projectId' text') = Some projectId'"
| "project_of (UpdateComment boardId columnId projectId' commentId text') = Some projectId'"
| "project_of (DeleteComment boardId columnId projectId' commentId) = Some projectId'"
| "project_of (LogActivity boardId columnId projectId' act descr oldV newV) = Some projectId'"
| "project_of _ = None"

text \<open>The boards are as many as before, and each board whose id is not \<open>boardId\<close> is, at its
  position, the board it was.\<close>

definition unchanged_outside :: "string \<Rightarrow> world \<Rightarrow> world \<Rightarrow> bool" where
  "unchanged_outside boardId w w' =
     (length (boards w') = length (boards w)
      \<and> (\<forall>n < length (boards w).
            b_id (boards w ! n) \<noteq> boardId \<longrightarrow> boards w' ! n = boards w ! n))"

text \<open>A column, and a board, with the projects of id \<open>projectId'\<close> left out.\<close>

definition column_without :: "string \<Rightarrow> column \<Rightarrow> column" where
  "column_without projectId' c =
     c\<lparr>projects := filter (\<lambda>p. p_id p \<noteq> projectId') (projects c)\<rparr>"

definition board_without :: "string \<Rightarrow> board \<Rightarrow> board" where
  "board_without projectId' b = b\<lparr>columns := map (column_without projectId') (columns b)\<rparr>"

text \<open>Every board keeps its fields and columns, and every column its fields and, in order,
  its projects other than those of id \<open>projectId'\<close>.\<close>

definition other_projects_unchanged :: "string \<Rightarrow> world \<Rightarrow> world \<Rightarrow> bool" where
  "other_projects_unchanged projectId' w w' =
     (map (board_without projectId') (boards w') = map (board_without projectId') (boards w))"

text \<open>The \<^verbatim>\<open>order\<close> of each column of a board is its index.\<close>

definition orders_match :: "board \<Rightarrow> bool" where
  "orders_match b = (map c_order (columns b) = map int [0..<length (columns b)])"

definition store_ordered :: "world \<Rightarrow> bool" where
  "store_ordered w = (\<forall>b \<in> set (boards w). orders_match b)"

text \<open>A call of \<^verbatim>\<open>updateColumn\<close> whose partial fields carry an \<^verbatim>\<open>order\<close>, or of
  \<^verbatim>\<open>updateBoard\<close> whose partial fields carry a \<^verbatim>\<open>columns\<close> sequence.\<close>

fun sets_order :: "op \<Rightarrow> bool" where
  "sets_order (UpdateColumn boardId columnId updates) = (upd_order updates \<noteq> None)"
| "sets_order (UpdateBoard boardId updates) = (upd_columns updates \<noteq> None)"
| "sets_order _ = False"

text \<open>The number that the digits at the end of a display id denote, if it ends in a digit;
  and these numbers for the projects of a board, all columns taken in order.\<close>

definition suffix_value :: "string \<Rightarrow> nat option" where
  "suffix_value s =
     (let ds = trailing_digits s in if ds = [] then None else Some (decimal_value ds))"

definition numeric_suffixes :: "board \<Rightarrow> nat list" where
  "numeric_suffixes b =
     List.map_filter (\<lambda>p. suffix_value (projectId p)) (concat (map projects (columns b)))"

text \<open>A board none of whose links and comments holds a \<^verbatim>\<open>Date\<close> object as timestamp.\<close>

definition is_DateString :: "stamp \<Rightarrow> bool" where
  "is_DateString t = (case t of DateString s \<Rightarrow> True | DateObject n \<Rightarrow> False)"

definition no_Date_objects :: "board \<Rightarrow> bool" where
  "no_Date_objects b =
     (\<forall>c \<in> set (columns b). \<forall>p \<in> set (projects c).
        (\<forall>l \<in> set (links p). is_DateString (l_timestamp l))
        \<and> (\<forall>m \<in> set (comments p). is_DateString (cm_timestamp m)))"

section \<open>A small store\<close>

text \<open>
  One board with prefix PROJ and two columns; the first column holds one project with a link,
  a comment and its creation record. The clock reads 0, 1, 2, ... and every random draw
  is the same string; the library functions are stand-ins (ASCII upper case, decimal digits).
\<close>

definition ascii_upper :: "string \<Rightarrow> string" where
  "ascii_upper s =
     map (\<lambda>c. if 97 \<le> (of_char c :: nat) \<and> (of_char c :: nat) \<le> 122
              then char_of ((of_char c :: nat) - 32) else c) s"


definition ex_project :: project where
  "ex_project =
     \<lparr>p_id = ''p1'', projectId = ''PROJ-001'', projectName = ''New Project'', p_description = [],
      links = [\<lparr>l_id = ''l1'', url = ''https://a.example'', l_title = ''Docs'', l_timestamp = DateObject 5\<rparr>],
      comments = [\<lparr>cm_id = ''m1'', cm_text = ''hello'', cm_timestamp = DateObject 6\<rparr>],
      activityLog = Some [\<lparr>a_id = ''a1'', action = ''created'', a_description = ''Project created'',
                           a_timestamp = 4, oldValue = Null, newValue = Null\<rparr>]\<rparr>"

definition ex_board :: board where
  "ex_board =
     \<lparr>b_id = ''b1'', b_name = ''B'', projectIdPrefix = ''PROJ'', b_description = [],
      columns = [\<lparr>c_id = ''c1'', c_title = ''To Do'', c_order = 0, projects = [ex_project]\<rparr>,
                 \<lparr>c_id = ''c2'', c_title = ''Done'', c_order = 1, projects = []\<rparr>]\<rparr>"

definition ex_world :: world where
  "ex_world =
     \<lparr>boards = [ex_board], currentBoardId = Some ''b1'', storageAvailable = True,
      setItem = Stores, stored = None, lastBackupTime = None, toasts = [],
      clock = (\<lambda>n. n), ticks = 0, entropy = (\<lambda>n. ''x''), draws = 0,
      localTime = (\<lambda>t. ''then''), toISOString = (\<lambda>t. ''T'' @ string_of_nat t),
      upperCase = ascii_upper, numberText = string_of_nat\<rparr>"

text \<open>The same store with a second board.\<close>

definition ex_board2 :: board where
  "ex_board2 =
     \<lparr>b_id = ''b2'', b_name = ''Other'', projectIdPrefix = ''OTH'', b_description = [],
      columns = [\<lparr>c_id = ''c3'', c_title = ''To Do'', c_order = 0,
                  projects = [ex_project\<lparr>p_id := ''p2'', projectId := ''OTH-001''\<rparr>]\<rparr>]\<rparr>"

definition ex_world2 :: world where
  "ex_world2 = ex_world\<lparr>boards := [ex_board, ex_board2]\<rparr>"

text \<open>
  A store whose only project has the display id PROJ-9007199254740993, and a store whose
  only project has a comma and a double quote in its description.
\<close>

definition ex_big_world :: world where
  "ex_big_world =
     ex_world\<lparr>boards :=
       [ex_board\<lparr>columns :=
          [\<lparr>c_id = ''c1'', c_title = ''To Do'', c_order = 0,
            projects = [ex_project\<lparr>projectId := ''PROJ-9007199254740993''\<rparr>]\<rparr>]\<rparr>]\<rparr>"

definition ex_csv_world :: world where
  "ex_csv_world =
     ex_world\<lparr>boards :=
       [ex_board\<lparr>columns :=
          [\<lparr>c_id = ''c1'', c_title = ''To Do'', c_order = 0,
            projects = [ex_project\<lparr>p_description := ''a, '' @ [CHR 0x22] @ ''b'' @ [CHR 0x22]\<rparr>]\<rparr>]\<rparr>]\<rparr>"

text \<open>A snapshot document with one board whose only column has order 5.\<close>

definition ex_unordered_doc :: json where
  "ex_unordered_doc =
     JObj [(''boards'',
            JArr [JObj [(''id'', JStr ''b1''), (''name'', JStr ''B''),
                        (''projectIdPrefix'', JStr ''PROJ''), (''description'', JStr []),
                        (''columns'',
                         JArr [JObj [(''id'', JStr ''c1''), (''title'', JStr ''To Do''),
                                     (''order'', JNum 5), (''projects'', JArr [])]])]])]"

text \<open>The first store as it is after a reload: what was saved, parsed.\<close>

definition ex_loaded_world :: world where
  "ex_loaded_world =
     ex_world\<lparr>boards := map (board_as_parsed (toISOString ex_world)) (boards ex_world)\<rparr>"

section \<open>Facts about the array primitives\<close>

lemmas operation_defs =
  createBoard_def updateBoard_def deleteBoard_def createColumn_def updateColumn_def
  deleteColumn_def reorderColumns_def createProject_def updateProject_def deleteProject_def
  moveProject_def addLink_def updateLink_def deleteLink_def addComment_def updateComment_def
  deleteComment_def logActivity_def

lemmas lookup_defs =
  find_board_def find_column_def find_project_def resolve_column_def resolve_project_def
  resolve_link_def resolve_comment_def

lemmas effect_defs =
  with_board_def with_column_def with_project_def saveData_def showToast_def generateId_def
  Date_now_def Math_random_def new_activity_def unshift_activity_def

lemmas example_defs = ex_world_def ex_board_def ex_project_def

lemma findIndex_None_iff: "findIndex P xs = None \<longleftrightarrow> find P xs = None"
  by (induction xs) auto

lemma findIndex_Some:
  "findIndex P xs = Some i \<Longrightarrow> i < length xs \<and> P (xs ! i) \<and> find P xs = Some (xs ! i)"
  by (induction xs arbitrary: i) (auto split: if_splits)

section \<open>Lookup misses\<close>

text \<open>
  C5. An operation that names a board, column, project, link or comment id which does not
  resolve at its level returns normally and leaves the whole world as it was: the store, the
  saved document, the notices and the clock (so no activity is logged and nothing is
  written).
\<close>

theorem lookup_miss_is_noop: "\<not> resolves oper w \<Longrightarrow> perform oper w = Inr w"
  by (cases oper)
     (auto simp: operation_defs lookup_defs findIndex_None_iff
           split: option.splits dest: findIndex_Some)

theorem lookup_miss_is_noop_witness:
  "\<not> resolves (UpdateLink ''b1'' ''c1'' ''p1'' ''l9'' ''https://b.example'' ''Docs'') ex_world
   \<and> perform (UpdateLink ''b1'' ''c1'' ''p1'' ''l9'' ''https://b.example'' ''Docs'') ex_world
       = Inr ex_world"
proof -
  have miss:
    "\<not> resolves (UpdateLink ''b1'' ''c1'' ''p1'' ''l9'' ''https://b.example'' ''Docs'') ex_world"
    by (simp add: lookup_defs example_defs)
  from miss lookup_miss_is_noop [OF miss] show ?thesis by simp
qed

section \<open>Import of a malformed snapshot\<close>

text \<open>
  C7. When the parsed value has no \<^verbatim>\<open>boards\<close> field that is an array, the import shows one
  notice and changes nothing else: boards, current board, saved document and clock are as
  before, whatever \<^verbatim>\<open>confirm\<close> would answer.
\<close>

theorem import_without_boards_rejected:
  "\<not> has_boards_array importedData \<Longrightarrow>
   importFromJSON importedData confirmed w =
     Inr (w\<lparr>toasts := toasts w @
            [cross_mark @ (if importedData = JNull
                           then '' Error importing data. Invalid file format.''
                           else '' Invalid backup file format'')]\<rparr>)"
  by (auto simp: importFromJSON_def has_boards_array_def get_prop_def showToast_def
           split: json.splits option.splits)

theorem import_without_boards_rejected_witness:
  "\<not> has_boards_array (JObj [(''version'', JStr ''1.0''), (''boards'', JStr ''none'')])
   \<and> importFromJSON (JObj [(''version'', JStr ''1.0''), (''boards'', JStr ''none'')]) True ex_world
       = Inr (ex_world\<lparr>toasts := [cross_mark @ '' Invalid backup file format'']\<rparr>)"
proof -
  have lacks: "\<not> has_boards_array (JObj [(''version'', JStr ''1.0''), (''boards'', JStr ''none'')])"
    by (simp add: has_boards_array_def)
  from lacks import_without_boards_rejected [OF lacks, of True ex_world] show ?thesis
    by (simp add: ex_world_def)
qed

section \<open>Updating a project\<close>

text \<open>
  C1, at the input where the code departs from it. \<^verbatim>\<open>closeProjectModal\<close> passes the trimmed ID
  field, which may be empty. \<^verbatim>\<open>updateProject\<close> then merges the empty \<^verbatim>\<open>projectId\<close> into the
  project, but its guard \<^verbatim>\<open>updates.projectId && ...\<close> is false for the empty string, so no
  \<^verbatim>\<open>id_changed\<close> record is logged: the project afterwards is the old one with the display id
  emptied and the activity log untouched. The same holds for an empty \<^verbatim>\<open>projectName\<close>. (The
  description is guarded by \<^verbatim>\<open>!== undefined\<close> and is logged when it becomes empty.)
\<close>

theorem updateProject_cleared_id_not_logged:
  "resolve_project ''b1'' ''c1'' ''p1''
     (updateProject ''b1'' ''c1'' ''p1''
        \<lparr>upd_projectName = Some ''New Project'', upd_projectId = Some [], upd_description = Some []\<rparr>
        ex_world)
   = Some (ex_project\<lparr>projectId := []\<rparr>)
   \<and> resolve_project ''b1'' ''c1'' ''p1''
     (updateProject ''b1'' ''c1'' ''p1''
        \<lparr>upd_projectName = Some [], upd_projectId = None, upd_description = None\<rparr> ex_world)
   = Some (ex_project\<lparr>projectName := []\<rparr>)"
  by (simp add: updateProject_def lookup_defs effect_defs example_defs assign_project_def
        or_else_def)

section \<open>How the steps of an operation act on a resolved entity\<close>

lemma find_modify_first_same:
  "find P xs = Some x \<Longrightarrow> P (f x) \<Longrightarrow> find P (modify_first P f xs) = Some (f x)"
  by (induction xs) (auto split: if_splits)

lemma modify_first_none: "find P xs = None \<Longrightarrow> modify_first P f xs = xs"
  by (induction xs) (auto split: if_splits)

lemma find_modify_first_other:
  "(\<And>x. Q (f x) = Q x) \<Longrightarrow> (\<And>x. Q x \<Longrightarrow> \<not> P x) \<Longrightarrow>
   find Q (modify_first P f xs) = find Q xs"
  by (induction xs) auto

lemma find_Some_holds: "find P xs = Some x \<Longrightarrow> P x"
  by (induction xs) (auto split: if_splits)

text \<open>Steps that leave the boards alone.\<close>

lemma boards_saveData [simp]: "boards (saveData w) = boards w"
  by (simp add: saveData_def Date_now_def showToast_def split: setItem_outcome.splits)

lemma boards_showToast [simp]: "boards (showToast m w) = boards w"
  by (simp add: showToast_def)

lemma boards_Date_now [simp]: "boards (snd (Date_now w)) = boards w"
  by (simp add: Date_now_def)

lemma boards_generateId [simp]: "boards (snd (generateId prefix w)) = boards w"
  by (simp add: generateId_def Date_now_def Math_random_def)

lemma boards_new_activity [simp]: "boards (snd (new_activity act d ov nv w)) = boards w"
  by (simp add: new_activity_def case_prod_beta)

lemma activity_fields [simp]:
  "action (fst (new_activity act d ov nv w)) = act"
  "a_description (fst (new_activity act d ov nv w)) = d"
  "oldValue (fst (new_activity act d ov nv w)) = ov"
  "newValue (fst (new_activity act d ov nv w)) = nv"
  by (simp_all add: new_activity_def case_prod_beta)

lemma find_board_cong: "boards w' = boards w \<Longrightarrow> find_board b w' = find_board b w"
  by (simp add: find_board_def)

lemma resolve_column_cong: "boards w' = boards w \<Longrightarrow> resolve_column b c w' = resolve_column b c w"
  by (simp add: resolve_column_def find_board_def)

lemma resolve_project_cong:
  "boards w' = boards w \<Longrightarrow> resolve_project b c p w' = resolve_project b c p w"
  by (simp add: resolve_project_def resolve_column_def find_board_def)

lemma resolve_project_steps [simp]:
  "resolve_project b c p (saveData w) = resolve_project b c p w"
  "resolve_project b c p (showToast m w) = resolve_project b c p w"
  "resolve_project b c p (snd (Date_now w)) = resolve_project b c p w"
  "resolve_project b c p (snd (generateId prefix w)) = resolve_project b c p w"
  "resolve_project b c p (snd (new_activity act d ov nv w)) = resolve_project b c p w"
  by (rule resolve_project_cong, simp)+

lemma resolve_column_steps [simp]:
  "resolve_column b c (saveData w) = resolve_column b c w"
  "resolve_column b c (showToast m w) = resolve_column b c w"
  "resolve_column b c (snd (Date_now w)) = resolve_column b c w"
  "resolve_column b c (snd (generateId prefix w)) = resolve_column b c w"
  "resolve_column b c (snd (new_activity act d ov nv w)) = resolve_column b c w"
  by (rule resolve_column_cong, simp)+

lemma find_board_steps [simp]:
  "find_board b (saveData w) = find_board b w"
  "find_board b (showToast m w) = find_board b w"
  "find_board b (snd (Date_now w)) = find_board b w"
  "find_board b (snd (generateId prefix w)) = find_board b w"
  "find_board b (snd (new_activity act d ov nv w)) = find_board b w"
  by (rule find_board_cong, simp)+

lemma find_board_with_board:
  "find_board b w = Some x \<Longrightarrow> b_id (f x) = b \<Longrightarrow> find_board b (with_board b f w) = Some (f x)"
  by (simp add: find_board_def with_board_def find_modify_first_same)

lemma find_board_with_board_none:
  "find_board b w = None \<Longrightarrow> with_board b f w = w"
  by (simp add: find_board_def with_board_def modify_first_none)

lemma resolve_columnE:
  assumes "resolve_column b c w = Some x"
  obtains bd where "find_board b w = Some bd" and "find_column c bd = Some x"
  using assms by (auto simp: resolve_column_def split: option.splits)

lemma resolve_column_with_column:
  assumes "resolve_column b c w = Some x" and "c_id (f x) = c"
  shows "resolve_column b c (with_column b c f w) = Some (f x)"
proof -
  from assms(1) obtain bd where bd: "find_board b w = Some bd" and x: "find_column c bd = Some x"
    by (rule resolve_columnE)
  let ?F = "\<lambda>b. b\<lparr>columns := modify_first (\<lambda>k. c_id k = c) f (columns b)\<rparr>"
  from bd have "b_id bd = b"
    by (auto simp: find_board_def dest: find_Some_holds)
  then have "b_id (?F bd) = b" by simp
  with bd have "find_board b (with_board b ?F w) = Some (?F bd)"
    by (rule find_board_with_board)
  moreover from x assms(2) have "find_column c (?F bd) = Some (f x)"
    by (simp add: find_column_def find_modify_first_same)
  ultimately show ?thesis
    by (simp add: resolve_column_def with_column_def)
qed

lemma resolve_column_with_other_column:
  assumes "c' \<noteq> c" and keeps: "\<And>x. c_id (f x) = c_id x"
  shows "resolve_column b c' (with_column b c f w) = resolve_column b c' w"
proof (cases "find_board b w")
  case None
  then show ?thesis
    by (simp add: with_column_def find_board_with_board_none)
next
  case (Some bd)
  let ?F = "\<lambda>b. b\<lparr>columns := modify_first (\<lambda>k. c_id k = c) f (columns b)\<rparr>"
  from Some have "b_id bd = b"
    by (auto simp: find_board_def dest: find_Some_holds)
  then have "b_id (?F bd) = b" by simp
  with Some have "find_board b (with_board b ?F w) = Some (?F bd)"
    by (rule find_board_with_board)
  moreover have "find (\<lambda>k. c_id k = c') (modify_first (\<lambda>k. c_id k = c) f (columns bd))
                 = find (\<lambda>k. c_id k = c') (columns bd)"
    by (rule find_modify_first_other) (use assms in auto)
  then have "find_column c' (?F bd) = find_column c' bd"
    by (simp add: find_column_def)
  ultimately show ?thesis using Some
    by (simp add: resolve_column_def with_column_def)
qed

lemma resolve_column_with_project:
  "resolve_column b c w = Some x \<Longrightarrow>
   resolve_column b c (with_project b c p f w)
     = Some (x\<lparr>projects := modify_first (\<lambda>q. p_id q = p) f (projects x)\<rparr>)"
  unfolding with_project_def
  by (rule resolve_column_with_column)
     (auto simp: resolve_column_def find_column_def split: option.splits dest: find_Some_holds)

lemma resolve_projectE:
  assumes "resolve_project b c p w = Some x"
  obtains cl where "resolve_column b c w = Some cl" and "find_project p cl = Some x"
  using assms by (auto simp: resolve_project_def split: option.splits)

lemma resolve_project_with_project:
  assumes "resolve_project b c p w = Some x" and "p_id (f x) = p"
  shows "resolve_project b c p (with_project b c p f w) = Some (f x)"
proof -
  from assms(1) obtain cl where cl: "resolve_column b c w = Some cl"
    and x: "find_project p cl = Some x"
    by (rule resolve_projectE)
  from x assms(2) show ?thesis
    by (simp add: resolve_project_def resolve_column_with_project [OF cl] find_project_def
          find_modify_first_same)
qed

lemma resolve_project_id: "resolve_project b c p w = Some x \<Longrightarrow> p_id x = p"
  by (auto simp: resolve_project_def find_project_def split: option.splits dest: find_Some_holds)

lemma logActivity_resolved:
  "resolve_project b c p w \<noteq> None \<Longrightarrow>
   logActivity b c p act d ov nv w
     = with_project b c p (unshift_activity (fst (new_activity act d ov nv w)))
         (snd (new_activity act d ov nv w))"
  by (auto simp: logActivity_def resolve_project_def resolve_column_def case_prod_beta
        split: option.splits)

lemma resolve_project_logActivity:
  assumes "resolve_project b c p w = Some x"
  shows "resolve_project b c p (logActivity b c p act d ov nv w)
         = Some (unshift_activity (fst (new_activity act d ov nv w)) x)"
proof -
  from assms have "p_id (unshift_activity (fst (new_activity act d ov nv w)) x) = p"
    by (simp add: unshift_activity_def resolve_project_id)
  moreover from assms
  have "resolve_project b c p (snd (new_activity act d ov nv w)) = Some x" by simp
  ultimately show ?thesis using assms
    by (simp add: logActivity_resolved resolve_project_with_project)
qed


lemma relative_start_index: "i \<le> n \<Longrightarrow> relative_start (int i) n = i"
  by (simp add: relative_start_def)

lemma take1_drop: "i < length xs \<Longrightarrow> take (Suc 0) (drop i xs) = [xs ! i]"
  by (simp add: take_Suc_conv_app_nth)

lemma splice_delete1_index:
  "i < length xs \<Longrightarrow> splice_delete1 (int i) xs = ([xs ! i], take i xs @ drop (Suc i) xs)"
  by (simp add: splice_delete1_def relative_start_index take1_drop)

lemma findIndex_less: "findIndex P xs = Some i \<Longrightarrow> i < length xs"
  by (simp add: findIndex_Some)

lemma modify_first_fixed:
  "find P xs = Some x \<Longrightarrow> f x = x \<Longrightarrow> modify_first P f xs = xs"
  by (induction xs) (auto split: if_splits)

lemma with_board_fixed: "find_board b w = Some bd \<Longrightarrow> f bd = bd \<Longrightarrow> with_board b f w = w"
  by (simp add: with_board_def find_board_def modify_first_fixed)

lemma with_project_unresolved:
  assumes "resolve_project b c p w = None"
  shows "with_project b c p f w = w"
proof (cases "find_board b w")
  case None
  then show ?thesis by (simp add: with_project_def with_column_def find_board_with_board_none)
next
  case (Some bd)
  let ?G = "\<lambda>k. k\<lparr>projects := modify_first (\<lambda>q. p_id q = p) f (projects k)\<rparr>"
  have "modify_first (\<lambda>k. c_id k = c) ?G (columns bd) = columns bd"
  proof (cases "find_column c bd")
    case None
    then show ?thesis by (simp add: find_column_def modify_first_none)
  next
    case (Some cl)
    with \<open>find_board b w = Some bd\<close> assms have "find_project p cl = None"
      by (simp add: resolve_project_def resolve_column_def)
    then have "?G cl = cl"
      by (simp add: find_project_def modify_first_none)
    with Some show ?thesis
      by (simp add: find_column_def modify_first_fixed)
  qed
  then have "bd\<lparr>columns := modify_first (\<lambda>k. c_id k = c) ?G (columns bd)\<rparr> = bd" by simp
  with Some show ?thesis
    unfolding with_project_def with_column_def by (rule with_board_fixed)
qed

lemma resolve_project_with_project_map:
  assumes "\<And>q. p_id (f q) = p_id q"
  shows "resolve_project b c p (with_project b c p f w)
         = map_option f (resolve_project b c p w)"
proof (cases "resolve_project b c p w")
  case None
  then show ?thesis by (simp add: with_project_unresolved)
next
  case (Some x)
  then have "p_id (f x) = p" by (simp add: assms resolve_project_id)
  with Some show ?thesis by (simp add: resolve_project_with_project)
qed

lemma logActivity_unresolved:
  "resolve_project b c p w = None \<Longrightarrow> logActivity b c p act d ov nv w = w"
  by (auto simp: logActivity_def resolve_project_def resolve_column_def split: option.splits)

lemma resolve_project_logActivity_map:
  "resolve_project b c p (logActivity b c p act d ov nv w)
   = map_option (unshift_activity (fst (new_activity act d ov nv w))) (resolve_project b c p w)"
  by (cases "resolve_project b c p w")
     (simp_all add: logActivity_unresolved resolve_project_logActivity)

lemma resolved_finds:
  assumes "resolve_project b c p w = Some x"
  obtains bd cl where "find_board b w = Some bd" and "find_column c bd = Some cl"
    and "find_project p cl = Some x"
  using assms by (auto simp: resolve_project_def resolve_column_def split: option.splits)

lemmas project_effect =
  resolve_project_with_project_map resolve_project_logActivity_map

section \<open>Links and comments\<close>

lemma fst_Date_now: "fst (Date_now w) = clock w (ticks w)"
  by (simp add: Date_now_def)

lemmas effect_simps =
  case_prod_beta Let_def project_effect unshift_activity_def log_of_def fst_Date_now

lemma addLink_logs:
  assumes x: "resolve_project b c p w = Some x"
  shows "\<exists>l a. resolve_project b c p (snd (addLink b c p u t w))
             = Some (x\<lparr>links := links x @ [l], activityLog := Some (a # log_of x)\<rparr>)
           \<and> url l = u \<and> l_title l = t \<and> action a = ''link_added''
           \<and> oldValue a = Null \<and> newValue a = Obj [(''title'', t), (''url'', u)]"
proof -
  from x obtain bd cl where f: "find_board b w = Some bd" "find_column c bd = Some cl"
    "find_project p cl = Some x"
    by (rule resolved_finds)
  let ?x' = "the (resolve_project b c p (snd (addLink b c p u t w)))"
  show ?thesis
    apply (rule exI [of _ "last (links ?x')"])
    apply (rule exI [of _ "hd (log_of ?x')"])
    using f x
    apply (simp add: addLink_def effect_simps)
    done
qed

lemma updateLink_logs:
  assumes x: "resolve_project b c p w = Some x"
    and l: "find (\<lambda>l. l_id l = k) (links x) = Some l"
  shows "\<exists>x'. resolve_project b c p (updateLink b c p k u t w) = Some x'
           \<and> comments x' = comments x
           \<and> links x' = modify_first (\<lambda>l. l_id l = k)
                 (\<lambda>l. l\<lparr>url := u, l_title := t, l_timestamp := DateObject (clock w (ticks w))\<rparr>) (links x)
           \<and> (if l_title l = t \<and> url l = u then activityLog x' = activityLog x
               else (\<exists>a. activityLog x' = Some (a # log_of x)
                     \<and> action a = (if l_title l \<noteq> t \<and> url l \<noteq> u then ''link_updated''
                                   else if l_title l \<noteq> t then ''link_title_updated''
                                   else ''link_url_updated'')
                     \<and> oldValue a = (if l_title l \<noteq> t \<and> url l \<noteq> u
                                      then Obj [(''title'', l_title l), (''url'', url l)]
                                      else if l_title l \<noteq> t
                                      then Obj [(''oldTitle'', l_title l), (''url'', u)]
                                      else Obj [(''title'', t), (''oldUrl'', url l)])
                     \<and> newValue a = (if l_title l \<noteq> t \<and> url l \<noteq> u
                                      then Obj [(''title'', t), (''url'', u)]
                                      else if l_title l \<noteq> t
                                      then Obj [(''newTitle'', t), (''url'', u)]
                                      else Obj [(''title'', t), (''newUrl'', u)])))"
proof -
  from x obtain bd cl where f: "find_board b w = Some bd" "find_column c bd = Some cl"
    "find_project p cl = Some x"
    by (rule resolved_finds)
  let ?x' = "the (resolve_project b c p (updateLink b c p k u t w))"
  show ?thesis
    apply (rule exI [of _ ?x'])
    using f x l
    apply (simp add: updateLink_def effect_simps)
    done
qed

lemma deleteLink_logs:
  assumes x: "resolve_project b c p w = Some x"
    and i: "findIndex (\<lambda>l. l_id l = k) (links x) = Some i"
  shows "\<exists>a. resolve_project b c p (deleteLink b c p k w)
             = Some (x\<lparr>links := take i (links x) @ drop (Suc i) (links x),
                      activityLog := Some (a # log_of x)\<rparr>)
           \<and> action a = ''link_deleted''
           \<and> oldValue a = Obj [(''title'', l_title (links x ! i)), (''url'', url (links x ! i))]
           \<and> newValue a = Null"
proof -
  from x obtain bd cl where f: "find_board b w = Some bd" "find_column c bd = Some cl"
    "find_project p cl = Some x"
    by (rule resolved_finds)
  from i have less: "i < length (links x)" by (rule findIndex_less)
  let ?x' = "the (resolve_project b c p (deleteLink b c p k w))"
  show ?thesis
    apply (rule exI [of _ "hd (log_of ?x')"])
    using f x i
    apply (simp add: deleteLink_def effect_simps splice_delete1_index [OF less])
    done
qed

lemma addComment_logs:
  assumes x: "resolve_project b c p w = Some x"
  shows "\<exists>m a. resolve_project b c p (snd (addComment b c p t w))
             = Some (x\<lparr>comments := comments x @ [m], activityLog := Some (a # log_of x)\<rparr>)
           \<and> cm_text m = t \<and> action a = ''comment_added''
           \<and> oldValue a = Null \<and> newValue a = Str t"
proof -
  from x obtain bd cl where f: "find_board b w = Some bd" "find_column c bd = Some cl"
    "find_project p cl = Some x"
    by (rule resolved_finds)
  let ?x' = "the (resolve_project b c p (snd (addComment b c p t w)))"
  show ?thesis
    apply (rule exI [of _ "last (comments ?x')"])
    apply (rule exI [of _ "hd (log_of ?x')"])
    using f x
    apply (simp add: addComment_def effect_simps)
    done
qed

lemma updateComment_logs:
  assumes x: "resolve_project b c p w = Some x"
    and m: "find (\<lambda>m. cm_id m = k) (comments x) = Some m"
  shows "\<exists>a. resolve_project b c p (updateComment b c p k t w)
             = Some (x\<lparr>comments := modify_first (\<lambda>m. cm_id m = k)
                          (\<lambda>m. m\<lparr>cm_text := t, cm_timestamp := DateObject (clock w (ticks w))\<rparr>) (comments x),
                      activityLog := Some (a # log_of x)\<rparr>)
           \<and> action a = ''comment_updated''
           \<and> oldValue a = Str (cm_text m) \<and> newValue a = Str t"
proof -
  from x obtain bd cl where f: "find_board b w = Some bd" "find_column c bd = Some cl"
    "find_project p cl = Some x"
    by (rule resolved_finds)
  let ?x' = "the (resolve_project b c p (updateComment b c p k t w))"
  show ?thesis
    apply (rule exI [of _ "hd (log_of ?x')"])
    using f x m
    apply (simp add: updateComment_def effect_simps)
    done
qed

lemma deleteComment_logs:
  assumes x: "resolve_project b c p w = Some x"
    and i: "findIndex (\<lambda>m. cm_id m = k) (comments x) = Some i"
  shows "\<exists>a. resolve_project b c p (deleteComment b c p k w)
             = Some (x\<lparr>comments := take i (comments x) @ drop (Suc i) (comments x),
                      activityLog := Some (a # log_of x)\<rparr>)
           \<and> action a = ''comment_deleted''
           \<and> oldValue a = Str (cm_text (comments x ! i)) \<and> newValue a = Null"
proof -
  from x obtain bd cl where f: "find_board b w = Some bd" "find_column c bd = Some cl"
    "find_project p cl = Some x"
    by (rule resolved_finds)
  from i have less: "i < length (comments x)" by (rule findIndex_less)
  let ?x' = "the (resolve_project b c p (deleteComment b c p k w))"
  show ?thesis
    apply (rule exI [of _ "hd (log_of ?x')"])
    using f x i
    apply (simp add: deleteComment_def effect_simps splice_delete1_index [OF less])
    done
qed


text \<open>
  The claim C9 as written fails for \<^verbatim>\<open>updateLink\<close>: called with the title and url the link
  already has, it resolves, refreshes the timestamp, saves and shows its notice, but none of
  its three logging branches is taken and the activity log stays as it was.
\<close>

theorem updateLink_unchanged_logs_nothing:
  "resolve_link ''b1'' ''c1'' ''p1'' ''l1'' ex_world
     = Some \<lparr>l_id = ''l1'', url = ''https://a.example'', l_title = ''Docs'', l_timestamp = DateObject 5\<rparr>
   \<and> map_option log_of (resolve_project ''b1'' ''c1'' ''p1''
         (updateLink ''b1'' ''c1'' ''p1'' ''l1'' ''https://a.example'' ''Docs'' ex_world))
     = map_option log_of (resolve_project ''b1'' ''c1'' ''p1'' ex_world)"
  by (simp add: updateLink_def lookup_defs effect_defs example_defs log_of_def Let_def)

text \<open>
  C9, amended. For a call whose board, column and project ids resolve to the project \<open>x\<close>:
  \<^item> \<^verbatim>\<open>addLink\<close> appends the link and logs one \<^verbatim>\<open>link_added\<close> record with new value
    \<^verbatim>\<open>{title, url}\<close>;
  \<^item> \<^verbatim>\<open>updateLink\<close> of an existing link sets url and title and refreshes its timestamp to
    the clock reading of the call; it logs one record when the title or the url differs from
    the link's (\<^verbatim>\<open>link_updated\<close>, \<^verbatim>\<open>link_title_updated\<close> or \<^verbatim>\<open>link_url_updated\<close>, each with its
    own payload) and none when both are unchanged;
  \<^item> \<^verbatim>\<open>deleteLink\<close> removes the link and logs one \<^verbatim>\<open>link_deleted\<close> record whose old value is
    the removed link's \<^verbatim>\<open>{title, url}\<close>;
  \<^item> \<^verbatim>\<open>addComment\<close> appends the comment and logs one \<^verbatim>\<open>comment_added\<close> record with the text
    as new value;
  \<^item> \<^verbatim>\<open>updateComment\<close> sets the text, refreshes the timestamp and logs one
    \<^verbatim>\<open>comment_updated\<close> record with the old and the new text (also when they are equal);
  \<^item> \<^verbatim>\<open>deleteComment\<close> removes the comment and logs one \<^verbatim>\<open>comment_deleted\<close> record whose old
    value is the removed text.
  Every record is put at the head of the project's log, and nothing else of the project
  changes.
\<close>

theorem link_and_comment_operations_log:
  assumes "resolve_project b c p w = Some x"
  shows
    "(\<exists>l a. resolve_project b c p (snd (addLink b c p u t w))
              = Some (x\<lparr>links := links x @ [l], activityLog := Some (a # log_of x)\<rparr>)
            \<and> url l = u \<and> l_title l = t \<and> action a = ''link_added''
            \<and> oldValue a = Null \<and> newValue a = Obj [(''title'', t), (''url'', u)])
     \<and> (\<forall>l. find (\<lambda>l. l_id l = k) (links x) = Some l \<longrightarrow>
          (\<exists>x'. resolve_project b c p (updateLink b c p k u t w) = Some x'
             \<and> comments x' = comments x
             \<and> links x' = modify_first (\<lambda>l. l_id l = k)
                   (\<lambda>l. l\<lparr>url := u, l_title := t, l_timestamp := DateObject (clock w (ticks w))\<rparr>) (links x)
             \<and> (if l_title l = t \<and> url l = u then activityLog x' = activityLog x
                 else (\<exists>a. activityLog x' = Some (a # log_of x)
                       \<and> action a = (if l_title l \<noteq> t \<and> url l \<noteq> u then ''link_updated''
                                     else if l_title l \<noteq> t then ''link_title_updated''
                                     else ''link_url_updated'')
                       \<and> oldValue a = (if l_title l \<noteq> t \<and> url l \<noteq> u
                                        then Obj [(''title'', l_title l), (''url'', url l)]
                                        else if l_title l \<noteq> t
                                        then Obj [(''oldTitle'', l_title l), (''url'', u)]
                                        else Obj [(''title'', t), (''oldUrl'', url l)])
                       \<and> newValue a = (if l_title l \<noteq> t \<and> url l \<noteq> u
                                        then Obj [(''title'', t), (''url'', u)]
                                        else if l_title l \<noteq> t
                                        then Obj [(''newTitle'', t), (''url'', u)]
                                        else Obj [(''title'', t), (''newUrl'', u)])))))
     \<and> (\<forall>i. findIndex (\<lambda>l. l_id l = k) (links x) = Some i \<longrightarrow>
          (\<exists>a. resolve_project b c p (deleteLink b c p k w)
                  = Some (x\<lparr>links := take i (links x) @ drop (Suc i) (links x),
                           activityLog := Some (a # log_of x)\<rparr>)
                \<and> action a = ''link_deleted''
                \<and> oldValue a = Obj [(''title'', l_title (links x ! i)), (''url'', url (links x ! i))]
                \<and> newValue a = Null))
     \<and> (\<exists>m a. resolve_project b c p (snd (addComment b c p s w))
              = Some (x\<lparr>comments := comments x @ [m], activityLog := Some (a # log_of x)\<rparr>)
            \<and> cm_text m = s \<and> action a = ''comment_added''
            \<and> oldValue a = Null \<and> newValue a = Str s)
     \<and> (\<forall>m. find (\<lambda>m. cm_id m = j) (comments x) = Some m \<longrightarrow>
          (\<exists>a. resolve_project b c p (updateComment b c p j s w)
                  = Some (x\<lparr>comments := modify_first (\<lambda>m. cm_id m = j)
                               (\<lambda>m. m\<lparr>cm_text := s, cm_timestamp := DateObject (clock w (ticks w))\<rparr>)
                               (comments x),
                           activityLog := Some (a # log_of x)\<rparr>)
                \<and> action a = ''comment_updated''
                \<and> oldValue a = Str (cm_text m) \<and> newValue a = Str s))
     \<and> (\<forall>i. findIndex (\<lambda>m. cm_id m = j) (comments x) = Some i \<longrightarrow>
          (\<exists>a. resolve_project b c p (deleteComment b c p j w)
                  = Some (x\<lparr>comments := take i (comments x) @ drop (Suc i) (comments x),
                           activityLog := Some (a # log_of x)\<rparr>)
                \<and> action a = ''comment_deleted''
                \<and> oldValue a = Str (cm_text (comments x ! i)) \<and> newValue a = Null))"
  using addLink_logs [OF assms] updateLink_logs [OF assms] deleteLink_logs [OF assms]
    addComment_logs [OF assms] updateComment_logs [OF assms] deleteComment_logs [OF assms]
  by (intro conjI allI impI) blast+

theorem link_and_comment_operations_log_witness:
  "resolve_project ''b1'' ''c1'' ''p1'' ex_world = Some ex_project
   \<and> findIndex (\<lambda>l. l_id l = ''l1'') (links ex_project) = Some 0
   \<and> (\<exists>a. resolve_project ''b1'' ''c1'' ''p1'' (deleteLink ''b1'' ''c1'' ''p1'' ''l1'' ex_world)
            = Some (ex_project\<lparr>links := take 0 (links ex_project) @ drop (Suc 0) (links ex_project),
                               activityLog := Some (a # log_of ex_project)\<rparr>)
          \<and> action a = ''link_deleted''
          \<and> oldValue a = Obj [(''title'', l_title (links ex_project ! 0)),
                               (''url'', url (links ex_project ! 0))]
          \<and> newValue a = Null)"
proof -
  have res: "resolve_project ''b1'' ''c1'' ''p1'' ex_world = Some ex_project"
    by (simp add: lookup_defs example_defs)
  have idx: "findIndex (\<lambda>l. l_id l = ''l1'') (links ex_project) = Some 0"
    by (simp add: ex_project_def)
  from link_and_comment_operations_log [OF res, where k = "''l1''"] idx res show ?thesis
    by blast
qed

section \<open>Moving a project\<close>




lemma with_column_unresolved:
  assumes "resolve_column b c w = None"
  shows "with_column b c f w = w"
proof (cases "find_board b w")
  case None
  then show ?thesis by (simp add: with_column_def find_board_with_board_none)
next
  case (Some bd)
  with assms have "find_column c bd = None" by (simp add: resolve_column_def)
  then have "bd\<lparr>columns := modify_first (\<lambda>k. c_id k = c) f (columns bd)\<rparr> = bd"
    by (simp add: find_column_def modify_first_none)
  with Some show ?thesis
    unfolding with_column_def by (rule with_board_fixed)
qed

lemma resolve_column_id: "resolve_column b c w = Some x \<Longrightarrow> c_id x = c"
  by (auto simp: resolve_column_def find_column_def split: option.splits dest: find_Some_holds)

lemma resolve_column_with_column_map:
  assumes "\<And>k. c_id (f k) = c_id k"
  shows "resolve_column b c (with_column b c f w) = map_option f (resolve_column b c w)"
proof (cases "resolve_column b c w")
  case None
  then show ?thesis by (simp add: with_column_unresolved)
next
  case (Some x)
  then have "c_id (f x) = c" by (simp add: assms resolve_column_id)
  with Some show ?thesis by (simp add: resolve_column_with_column)
qed

lemma resolve_column_with_project_map:
  "resolve_column b c (with_project b c p f w)
   = map_option (\<lambda>k. k\<lparr>projects := modify_first (\<lambda>q. p_id q = p) f (projects k)\<rparr>)
       (resolve_column b c w)"
  unfolding with_project_def by (rule resolve_column_with_column_map) simp

lemma resolve_column_with_other_project:
  "c' \<noteq> c \<Longrightarrow> resolve_column b c' (with_project b c p f w) = resolve_column b c' w"
  unfolding with_project_def by (rule resolve_column_with_other_column) simp_all

lemma resolve_column_logActivity:
  "resolve_column b c (logActivity b c p act d ov nv w)
   = map_option (\<lambda>k. k\<lparr>projects := modify_first (\<lambda>q. p_id q = p)
                          (unshift_activity (fst (new_activity act d ov nv w))) (projects k)\<rparr>)
       (resolve_column b c w)"
proof (cases "resolve_project b c p w")
  case None
  then have same: "logActivity b c p act d ov nv w = w" by (rule logActivity_unresolved)
  show ?thesis
  proof (cases "resolve_column b c w")
    case None
    with same show ?thesis by simp
  next
    case (Some k)
    with \<open>resolve_project b c p w = None\<close> have "find_project p k = None"
      by (simp add: resolve_project_def)
    with Some same show ?thesis
      by (simp add: find_project_def modify_first_none)
  qed
next
  case (Some x)
  then show ?thesis
    by (simp add: logActivity_resolved resolve_column_with_project_map)
qed

lemma resolve_column_logActivity_other:
  "c' \<noteq> c \<Longrightarrow> resolve_column b c' (logActivity b c p act d ov nv w) = resolve_column b c' w"
  by (cases "resolve_project b c p w")
     (simp_all add: logActivity_unresolved logActivity_resolved resolve_column_with_other_project)

lemmas column_effect =
  resolve_column_with_column_map resolve_column_with_other_column resolve_column_logActivity
  resolve_column_logActivity_other resolve_column_with_project_map
  resolve_column_with_other_project






section \<open>Other boards and other projects\<close>

lemma length_modify_first [simp]: "length (modify_first P f xs) = length xs"
  by (induction xs) auto

lemma nth_modify_first_other:
  "n < length xs \<Longrightarrow> \<not> P (xs ! n) \<Longrightarrow> modify_first P f xs ! n = xs ! n"
  by (induction xs arbitrary: n) (auto simp: nth_Cons split: nat.splits)

lemma unchanged_outside_refl: "unchanged_outside b w w"
  by (simp add: unchanged_outside_def)

lemma unchanged_outside_boards:
  "unchanged_outside b w w0 \<Longrightarrow> boards w1 = boards w0 \<Longrightarrow> unchanged_outside b w w1"
  by (simp add: unchanged_outside_def)

lemma unchanged_outside_with_board:
  assumes "unchanged_outside b w w0"
  shows "unchanged_outside b w (with_board b f w0)"
  unfolding unchanged_outside_def
proof (intro conjI allI impI)
  show "length (boards (with_board b f w0)) = length (boards w)"
    using assms by (simp add: unchanged_outside_def with_board_def)
next
  fix n
  assume n: "n < length (boards w)" and other: "b_id (boards w ! n) \<noteq> b"
  with assms have same: "boards w0 ! n = boards w ! n" and len: "n < length (boards w0)"
    by (simp_all add: unchanged_outside_def)
  with other have "\<not> b_id (boards w0 ! n) = b" by simp
  with len have "modify_first (\<lambda>x. b_id x = b) f (boards w0) ! n = boards w0 ! n"
    by (rule nth_modify_first_other)
  with same show "boards (with_board b f w0) ! n = boards w ! n"
    by (simp add: with_board_def)
qed

lemma unchanged_outside_steps:
  "unchanged_outside b w w0 \<Longrightarrow> unchanged_outside b w (saveData w0)"
  "unchanged_outside b w w0 \<Longrightarrow> unchanged_outside b w (showToast m w0)"
  "unchanged_outside b w w0 \<Longrightarrow> unchanged_outside b w (snd (Date_now w0))"
  "unchanged_outside b w w0 \<Longrightarrow> unchanged_outside b w (snd (generateId prefix w0))"
  "unchanged_outside b w w0 \<Longrightarrow> unchanged_outside b w (snd (new_activity act d ov nv w0))"
  "unchanged_outside b w w0 \<Longrightarrow> unchanged_outside b w (with_column b c g w0)"
  "unchanged_outside b w w0 \<Longrightarrow> unchanged_outside b w (with_project b c p f w0)"
  by (auto simp: with_column_def with_project_def
        intro: unchanged_outside_boards unchanged_outside_with_board)

lemma logActivity_cases:
  "logActivity b c p act d ov nv w
   = (if resolve_project b c p w = None then w
      else with_project b c p (unshift_activity (fst (new_activity act d ov nv w)))
             (snd (new_activity act d ov nv w)))"
  by (simp add: logActivity_unresolved logActivity_resolved)

lemma unchanged_outside_logActivity:
  "unchanged_outside b w w0 \<Longrightarrow> unchanged_outside b w (logActivity b c p act d ov nv w0)"
  by (simp add: logActivity_cases unchanged_outside_steps)

lemmas unchanged_outside_intros =
  unchanged_outside_refl unchanged_outside_with_board unchanged_outside_steps
  unchanged_outside_logActivity

lemma other_boards_unchanged:
  "board_of oper = Some b \<Longrightarrow> perform oper w = Inr w' \<Longrightarrow> unchanged_outside b w w'"
  apply (cases oper)
  apply (auto simp: createColumn_def updateColumn_def
        deleteColumn_def reorderColumns_def createProject_def updateProject_def deleteProject_def
        moveProject_def addLink_def updateLink_def deleteLink_def addComment_def updateComment_def
        deleteComment_def case_prod_beta Let_def
        split: option.splits list.splits if_splits intro!: unchanged_outside_intros)
  done


lemma map_modify_first_found:
  "find P xs = Some x \<Longrightarrow> g (f x) = g x \<Longrightarrow> map g (modify_first P f xs) = map g xs"
  by (induction xs) (auto split: if_splits)

lemma map_modify_first_all:
  "(\<And>x. g (f x) = g x) \<Longrightarrow> map g (modify_first P f xs) = map g xs"
  by (induction xs) auto

lemma filter_modify_first:
  "(\<And>x. P (f x) = P x) \<Longrightarrow>
   filter (\<lambda>x. \<not> P x) (modify_first P f xs) = filter (\<lambda>x. \<not> P x) xs"
  by (induction xs) auto

lemma filter_delete_nth:
  "i < length xs \<Longrightarrow> \<not> Q (xs ! i) \<Longrightarrow> filter Q (take i xs @ drop (Suc i) xs) = filter Q xs"
proof -
  assume "i < length xs" and "\<not> Q (xs ! i)"
  then have "filter Q xs = filter Q (take i xs @ xs ! i # drop (Suc i) xs)"
    by (simp add: id_take_nth_drop [symmetric])
  also have "\<dots> = filter Q (take i xs @ drop (Suc i) xs)"
    using \<open>\<not> Q (xs ! i)\<close> by simp
  finally show ?thesis by simp
qed

lemma filter_splice_insert:
  assumes "\<not> Q x"
  shows "filter Q (splice_insert k x xs) = filter Q xs"
proof -
  have "filter Q (take n xs @ x # drop n xs) = filter Q xs" for n
  proof -
    have "filter Q (take n xs @ x # drop n xs) = filter Q (take n xs) @ filter Q (drop n xs)"
      using assms by simp
    also have "\<dots> = filter Q (take n xs @ drop n xs)"
      by (simp only: filter_append)
    also have "\<dots> = filter Q xs"
      by (simp only: append_take_drop_id)
    finally show ?thesis .
  qed
  then show ?thesis by (simp only: splice_insert_def Let_def)
qed

lemma other_projects_refl: "other_projects_unchanged p w w"
  by (simp add: other_projects_unchanged_def)

lemma other_projects_boards:
  "other_projects_unchanged p w w0 \<Longrightarrow> boards w1 = boards w0 \<Longrightarrow>
   other_projects_unchanged p w w1"
  by (simp add: other_projects_unchanged_def)

lemma other_projects_with_column:
  assumes "other_projects_unchanged p w w0"
    and "\<And>cl. resolve_column b c w0 = Some cl \<Longrightarrow> column_without p (g cl) = column_without p cl"
  shows "other_projects_unchanged p w (with_column b c g w0)"
proof (cases "resolve_column b c w0")
  case None
  with assms(1) show ?thesis by (simp add: with_column_unresolved)
next
  case (Some cl)
  then obtain bd where bd: "find_board b w0 = Some bd" and cl: "find_column c bd = Some cl"
    by (rule resolve_columnE)
  from assms(2) Some have "column_without p (g cl) = column_without p cl" by simp
  with cl have "map (column_without p) (modify_first (\<lambda>k. c_id k = c) g (columns bd))
                = map (column_without p) (columns bd)"
    unfolding find_column_def by (rule map_modify_first_found)
  then have "board_without p (bd\<lparr>columns := modify_first (\<lambda>k. c_id k = c) g (columns bd)\<rparr>)
             = board_without p bd"
    by (simp add: board_without_def)
  with bd have "map (board_without p) (boards (with_column b c g w0))
                = map (board_without p) (boards w0)"
    unfolding find_board_def with_column_def with_board_def
    by (simp add: map_modify_first_found)
  with assms(1) show ?thesis by (simp add: other_projects_unchanged_def)
qed

lemma other_projects_with_project:
  assumes "other_projects_unchanged p w w0" and "\<And>q. p_id (f q) = p_id q"
  shows "other_projects_unchanged p w (with_project b c p f w0)"
  unfolding with_project_def
  using assms(1)
proof (rule other_projects_with_column)
  fix cl :: column
  have "filter (\<lambda>q. \<not> p_id q = p) (modify_first (\<lambda>q. p_id q = p) f (projects cl))
        = filter (\<lambda>q. \<not> p_id q = p) (projects cl)"
    by (rule filter_modify_first) (simp add: assms(2))
  then show "column_without p (cl\<lparr>projects := modify_first (\<lambda>q. p_id q = p) f (projects cl)\<rparr>)
             = column_without p cl"
    by (simp add: column_without_def)
qed

lemma other_projects_steps:
  "other_projects_unchanged p w w0 \<Longrightarrow> other_projects_unchanged p w (saveData w0)"
  "other_projects_unchanged p w w0 \<Longrightarrow> other_projects_unchanged p w (showToast m w0)"
  "other_projects_unchanged p w w0 \<Longrightarrow> other_projects_unchanged p w (snd (Date_now w0))"
  "other_projects_unchanged p w w0 \<Longrightarrow> other_projects_unchanged p w (snd (generateId prefix w0))"
  "other_projects_unchanged p w w0 \<Longrightarrow>
   other_projects_unchanged p w (snd (new_activity act d ov nv w0))"
  by (auto intro: other_projects_boards)

lemma other_projects_logActivity:
  "other_projects_unchanged p w w0 \<Longrightarrow>
   other_projects_unchanged p w (logActivity b c p act d ov nv w0)"
  by (simp add: logActivity_cases other_projects_steps other_projects_with_project
        unshift_activity_def)

lemmas other_projects_intros =
  other_projects_refl other_projects_with_project other_projects_steps
  other_projects_logActivity

lemma other_projects_deleteProject:
  "other_projects_unchanged p w (deleteProject b c p w)"
proof (cases "resolve_column b c w")
  case None
  then show ?thesis
    by (auto simp: deleteProject_def resolve_column_def other_projects_refl split: option.splits)
next
  case (Some cl)
  then obtain bd where bd: "find_board b w = Some bd" and cl: "find_column c bd = Some cl"
    by (rule resolve_columnE)
  show ?thesis
  proof (cases "findIndex (\<lambda>q. p_id q = p) (projects cl)")
    case None
    with bd cl show ?thesis by (simp add: deleteProject_def other_projects_refl)
  next
    case (Some i)
    then have less: "i < length (projects cl)" and pid: "p_id (projects cl ! i) = p"
      using findIndex_Some [OF Some] by simp_all
    have "other_projects_unchanged p w
            (with_column b c (\<lambda>k. k\<lparr>projects := snd (splice_delete1 (int i) (projects k))\<rparr>) w)"
      using other_projects_refl
    proof (rule other_projects_with_column)
      fix cl' :: column
      assume "resolve_column b c w = Some cl'"
      with \<open>resolve_column b c w = Some cl\<close> have "cl' = cl" by simp
      moreover from less pid
      have "filter (\<lambda>q. p_id q \<noteq> p) (take i (projects cl) @ drop (Suc i) (projects cl))
            = filter (\<lambda>q. p_id q \<noteq> p) (projects cl)"
        by (simp only: filter_delete_nth not_not)
      ultimately
      show "column_without p (cl'\<lparr>projects := snd (splice_delete1 (int i) (projects cl'))\<rparr>)
            = column_without p cl'"
        using less by (simp add: column_without_def splice_delete1_index)
    qed
    with bd cl Some show ?thesis
      by (simp add: deleteProject_def other_projects_steps)
  qed
qed


lemma other_projects_moveProject:
  "other_projects_unchanged p w (moveProject b src dst p k w)"
proof (cases "resolve_column b src w")
  case None
  then show ?thesis
    by (auto simp: moveProject_def resolve_column_def other_projects_refl split: option.splits)
next
  case (Some fc)
  then obtain bd where bd: "find_board b w = Some bd" and fc: "find_column src bd = Some fc"
    by (rule resolve_columnE)
  show ?thesis
  proof (cases "find_column dst bd")
    case None
    with bd fc show ?thesis by (simp add: moveProject_def other_projects_refl)
  next
    case tc: (Some tc)
    show ?thesis
    proof (cases "findIndex (\<lambda>q. p_id q = p) (projects fc)")
      case None
      with bd fc tc show ?thesis by (simp add: moveProject_def other_projects_refl)
    next
      case (Some i)
      then have less: "i < length (projects fc)" and pid: "p_id (projects fc ! i) = p"
        using findIndex_Some [OF Some] by simp_all
      let ?x = "projects fc ! i"
      have del: "filter (\<lambda>q. p_id q \<noteq> p) (take i (projects fc) @ drop (Suc i) (projects fc))
                 = filter (\<lambda>q. p_id q \<noteq> p) (projects fc)"
        using less pid by (simp only: filter_delete_nth not_not)
      have ins: "filter (\<lambda>q. p_id q \<noteq> p) (splice_insert k ?x ys)
                 = filter (\<lambda>q. p_id q \<noteq> p) ys" for ys
        using pid by (simp only: filter_splice_insert not_not)
      have step1: "other_projects_unchanged p w
            (with_column b src (\<lambda>c. c\<lparr>projects := snd (splice_delete1 (int i) (projects c))\<rparr>) w)"
        using other_projects_refl
      proof (rule other_projects_with_column)
        fix cl' :: column
        assume "resolve_column b src w = Some cl'"
        with \<open>resolve_column b src w = Some fc\<close> have "cl' = fc" by simp
        then show "column_without p (cl'\<lparr>projects := snd (splice_delete1 (int i) (projects cl'))\<rparr>)
                   = column_without p cl'"
          using less del by (simp add: column_without_def splice_delete1_index)
      qed
      have step2: "other_projects_unchanged p w
            (with_column b dst (\<lambda>c. c\<lparr>projects := splice_insert k ?x (projects c)\<rparr>)
              (with_column b src
                 (\<lambda>c. c\<lparr>projects := snd (splice_delete1 (int i) (projects c))\<rparr>) w))"
        using step1
      proof (rule other_projects_with_column)
        fix cl' :: column
        show "column_without p (cl'\<lparr>projects := splice_insert k ?x (projects cl')\<rparr>)
              = column_without p cl'"
          by (simp add: column_without_def ins)
      qed
      have same: "other_projects_unchanged p w
            (with_column b src
               (\<lambda>c. c\<lparr>projects := splice_insert k ?x
                                      (snd (splice_delete1 (int i) (projects c)))\<rparr>) w)"
        using other_projects_refl
      proof (rule other_projects_with_column)
        fix cl' :: column
        assume "resolve_column b src w = Some cl'"
        with \<open>resolve_column b src w = Some fc\<close> have "cl' = fc" by simp
        then show "column_without p
                     (cl'\<lparr>projects := splice_insert k ?x
                                          (snd (splice_delete1 (int i) (projects cl')))\<rparr>)
                   = column_without p cl'"
          using less del by (simp add: column_without_def splice_delete1_index ins)
      qed
      show ?thesis
      proof (cases "src = dst")
        case True
        from same have "other_projects_unchanged p w (moveProject b src src p k w)"
          using bd fc Some by (simp add: moveProject_def Let_def other_projects_steps)
        with True show ?thesis by simp
      next
        case False
        with bd fc tc Some step2 show ?thesis
          by (simp add: moveProject_def Let_def other_projects_steps other_projects_logActivity)
      qed
    qed
  qed
qed

lemma other_projects_hold:
  "project_of oper = Some p \<Longrightarrow> perform oper w = Inr w' \<Longrightarrow> other_projects_unchanged p w w'"
  apply (cases oper)
  apply (auto simp: other_projects_deleteProject other_projects_moveProject
        updateProject_def addLink_def updateLink_def deleteLink_def addComment_def updateComment_def
        deleteComment_def case_prod_beta Let_def assign_project_def
        split: option.splits list.splits if_splits intro!: other_projects_intros)
  done

text \<open>
  C10. A column, project, link or comment operation called with board id \<open>b\<close> (and
  \<^verbatim>\<open>logActivity\<close>) that returns normally leaves the number of boards unchanged and leaves every
  board whose id is not \<open>b\<close> exactly as it was, with all it contains. An operation that
  addresses the project id \<open>p\<close> moreover leaves, in every board and column, all fields and the
  sequence of the projects whose id is not \<open>p\<close> as they were.
\<close>

theorem operations_leave_the_rest_alone:
  "(board_of oper = Some b \<and> perform oper w = Inr w' \<longrightarrow> unchanged_outside b w w')
   \<and> (project_of oper = Some p \<and> perform oper w = Inr w' \<longrightarrow> other_projects_unchanged p w w')"
  using other_boards_unchanged other_projects_hold by blast



section \<open>Column order\<close>

lemma ball_modify_first_found:
  "\<forall>x \<in> set xs. I x \<Longrightarrow> (\<And>x. find P xs = Some x \<Longrightarrow> I x \<Longrightarrow> I (f x)) \<Longrightarrow>
   \<forall>x \<in> set (modify_first P f xs). I x"
  by (induction xs) auto

lemma store_ordered_boards:
  "boards w1 = boards w0 \<Longrightarrow> store_ordered w1 = store_ordered w0"
  by (simp add: store_ordered_def)

lemma store_ordered_steps [simp]:
  "store_ordered (saveData w) = store_ordered w"
  "store_ordered (showToast m w) = store_ordered w"
  "store_ordered (snd (Date_now w)) = store_ordered w"
  "store_ordered (snd (generateId prefix w)) = store_ordered w"
  "store_ordered (snd (new_activity act d ov nv w)) = store_ordered w"
  by (rule store_ordered_boards, simp)+

lemma store_ordered_with_board:
  assumes "store_ordered w"
    and "\<And>bd. find_board b w = Some bd \<Longrightarrow> orders_match bd \<Longrightarrow> orders_match (f bd)"
  shows "store_ordered (with_board b f w)"
proof -
  have "\<forall>x \<in> set (modify_first (\<lambda>x. b_id x = b) f (boards w)). orders_match x"
  proof (rule ball_modify_first_found)
    show "\<forall>x \<in> set (boards w). orders_match x"
      using assms(1) by (simp add: store_ordered_def)
  next
    fix x
    assume "find (\<lambda>x. b_id x = b) (boards w) = Some x" and "orders_match x"
    then show "orders_match (f x)"
      by (simp add: assms(2) find_board_def)
  qed
  then show ?thesis by (simp add: store_ordered_def with_board_def)
qed

lemma orders_match_columns:
  "map c_order cs = map c_order (columns bd) \<Longrightarrow> orders_match bd \<Longrightarrow>
   orders_match (bd\<lparr>columns := cs\<rparr>)"
proof -
  assume eq: "map c_order cs = map c_order (columns bd)" and "orders_match bd"
  from eq have "length cs = length (columns bd)" by (rule map_eq_imp_length_eq)
  with eq \<open>orders_match bd\<close> show ?thesis by (simp add: orders_match_def)
qed

lemma store_ordered_with_column:
  assumes "store_ordered w" and "\<And>k. c_order (g k) = c_order k"
  shows "store_ordered (with_column b c g w)"
  unfolding with_column_def using assms(1)
proof (rule store_ordered_with_board)
  fix bd
  assume "orders_match bd"
  moreover have "map c_order (modify_first (\<lambda>k. c_id k = c) g (columns bd))
                 = map c_order (columns bd)"
    by (rule map_modify_first_all) (rule assms(2))
  ultimately show "orders_match (bd\<lparr>columns := modify_first (\<lambda>k. c_id k = c) g (columns bd)\<rparr>)"
    by (simp add: orders_match_columns)
qed

lemma store_ordered_with_project:
  "store_ordered w \<Longrightarrow> store_ordered (with_project b c p f w)"
  unfolding with_project_def by (rule store_ordered_with_column) simp_all

lemma store_ordered_logActivity:
  "store_ordered w \<Longrightarrow> store_ordered (logActivity b c p act d ov nv w)"
  by (simp add: logActivity_cases store_ordered_with_project)

lemma map_order_renumber: "map c_order (renumber cs) = map int [0..<length cs]"
proof -
  have "map c_order (map (\<lambda>(idx, col). col\<lparr>c_order := int idx\<rparr>) (enumerate n cs))
        = map int [n..<n + length cs]" for n
    by (induction cs arbitrary: n) (simp_all add: upt_conv_Cons del: upt_Suc)
  from this [of 0] show ?thesis by (simp add: renumber_def)
qed

lemma length_renumber [simp]: "length (renumber cs) = length cs"
  by (simp add: renumber_def)

lemma orders_match_renumber: "orders_match (bd\<lparr>columns := renumber cs\<rparr>)"
  by (simp add: orders_match_def map_order_renumber)

lemma orders_match_push:
  "orders_match bd \<Longrightarrow> c_order col = int (length (columns bd)) \<Longrightarrow>
   orders_match (bd\<lparr>columns := columns bd @ [col]\<rparr>)"
  by (simp add: orders_match_def)

lemma orders_match_assign:
  "upd_columns u = None \<Longrightarrow> orders_match (assign_board u bd) = orders_match bd"
  by (simp add: orders_match_def assign_board_def or_else_def)

lemma boards_deleteBoard: "set (boards (deleteBoard b w)) \<subseteq> set (boards w)"
proof (cases "findIndex (\<lambda>x. b_id x = b) (boards w)")
  case None
  then show ?thesis by (simp add: deleteBoard_def)
next
  case (Some i)
  then have "i < length (boards w)" by (rule findIndex_less)
  then have "boards (deleteBoard b w) = take i (boards w) @ drop (Suc i) (boards w)"
    using Some by (simp add: deleteBoard_def Let_def splice_delete1_index)
  then show ?thesis
    by (auto dest: in_set_takeD in_set_dropD)
qed

lemmas store_ordered_intros =
  store_ordered_with_project store_ordered_with_column store_ordered_logActivity

lemma orders_preserved:
  "store_ordered w \<Longrightarrow> \<not> sets_order oper \<Longrightarrow> perform oper w = Inr w' \<Longrightarrow> store_ordered w'"
proof (cases oper)
  case (CreateBoard name prefix descr)
  assume "store_ordered w" "perform oper w = Inr w'"
  with CreateBoard show ?thesis
    by (auto simp: createBoard_def case_prod_beta Let_def store_ordered_def orders_match_def
          showToast_def upt_conv_Cons simp del: upt_Suc)
next
  case (UpdateBoard b u)
  assume "store_ordered w" "\<not> sets_order oper" "perform oper w = Inr w'"
  with UpdateBoard show ?thesis
    by (auto simp: updateBoard_def orders_match_assign
          split: option.splits intro!: store_ordered_with_board)
next
  case (DeleteBoard b)
  assume "store_ordered w" "perform oper w = Inr w'"
  with DeleteBoard show ?thesis
    using boards_deleteBoard [of b w] by (auto simp: store_ordered_def)
next
  case (CreateColumn b t)
  assume "store_ordered w" "perform oper w = Inr w'"
  with CreateColumn show ?thesis
    by (auto simp: createColumn_def case_prod_beta Let_def
          split: option.splits intro!: store_ordered_with_board orders_match_push)
next
  case (UpdateColumn b c u)
  assume "store_ordered w" "\<not> sets_order oper" "perform oper w = Inr w'"
  with UpdateColumn show ?thesis
    by (auto simp: updateColumn_def assign_column_def or_else_def
          split: option.splits intro!: store_ordered_with_column)
next
  case (DeleteColumn b c)
  assume "store_ordered w" "perform oper w = Inr w'"
  with DeleteColumn show ?thesis
    by (auto simp: deleteColumn_def Let_def
          split: option.splits intro!: store_ordered_with_board orders_match_renumber)
next
  case (ReorderColumns b i j)
  assume "store_ordered w" "perform oper w = Inr w'"
  with ReorderColumns show ?thesis
    by (auto simp: reorderColumns_def Let_def case_prod_beta
          split: option.splits list.splits intro!: store_ordered_with_board orders_match_renumber)
qed (auto simp: createProject_def updateProject_def deleteProject_def
        moveProject_def addLink_def updateLink_def deleteLink_def addComment_def updateComment_def
        deleteComment_def case_prod_beta Let_def
        split: option.splits if_splits intro!: store_ordered_intros)


lemma find_board_id: "find_board b w = Some bd \<Longrightarrow> b_id bd = b"
  by (auto simp: find_board_def dest: find_Some_holds)

lemma deleteColumn_renumbers:
  assumes "resolve_column b c w = Some cl"
  shows "\<exists>bd. find_board b (deleteColumn b c w) = Some bd \<and> orders_match bd"
proof -
  from assms obtain bd0 where bd0: "find_board b w = Some bd0" and "find_column c bd0 = Some cl"
    by (rule resolve_columnE)
  then have "findIndex (\<lambda>k. c_id k = c) (columns bd0) \<noteq> None"
    by (simp add: findIndex_None_iff find_column_def)
  then obtain i where i: "findIndex (\<lambda>k. c_id k = c) (columns bd0) = Some i" by auto
  let ?f = "\<lambda>x. x\<lparr>columns := renumber (snd (splice_delete1 (int i) (columns x)))\<rparr>"
  from bd0 have "b_id (?f bd0) = b" by (simp add: find_board_id)
  with bd0 have "find_board b (with_board b ?f w) = Some (?f bd0)"
    by (rule find_board_with_board)
  with bd0 i have "find_board b (deleteColumn b c w) = Some (?f bd0)"
    by (simp add: deleteColumn_def)
  then show ?thesis by (simp add: orders_match_renumber)
qed

lemma reorderColumns_renumbers:
  assumes "find_board b w = Some bd0" and "reorderColumns b i j w = Inr w'"
  shows "\<exists>bd. find_board b w' = Some bd \<and> orders_match bd"
proof -
  from assms obtain col rest where
    w': "w' = saveData (with_board b
                (\<lambda>x. x\<lparr>columns := renumber (splice_insert j col rest)\<rparr>) w)"
    by (auto simp: reorderColumns_def case_prod_beta Let_def split: list.splits)
  let ?f = "\<lambda>x. x\<lparr>columns := renumber (splice_insert j col rest)\<rparr>"
  from assms(1) have "b_id (?f bd0) = b" by (simp add: find_board_id)
  with assms(1) have "find_board b (with_board b ?f w) = Some (?f bd0)"
    by (rule find_board_with_board)
  with w' show ?thesis by (simp add: orders_match_renumber)
qed

lemma createColumn_appends:
  assumes "find_board b w = Some bd0"
  shows "\<exists>col bd. fst (createColumn b t w) = Some col
           \<and> c_order col = int (length (columns bd0))
           \<and> find_board b (snd (createColumn b t w)) = Some bd
           \<and> columns bd = columns bd0 @ [col]"
proof -
  let ?col = "\<lparr>c_id = fst (generateId ''col'' w), c_title = t,
               c_order = int (length (columns bd0)), projects = []\<rparr>"
  let ?f = "\<lambda>x. x\<lparr>columns := columns x @ [?col]\<rparr>"
  let ?w1 = "snd (generateId ''col'' w)"
  from assms have "find_board b ?w1 = Some bd0" by simp
  moreover from assms have "b_id (?f bd0) = b" by (simp add: find_board_id)
  ultimately have "find_board b (with_board b ?f ?w1) = Some (?f bd0)"
    by (rule find_board_with_board)
  with assms show ?thesis
    by (simp add: createColumn_def case_prod_beta Let_def)
qed

lemma modify_first_index:
  "findIndex P xs = Some n \<Longrightarrow> modify_first P f xs = xs[n := f (xs ! n)]"
  by (induction xs arbitrary: n) (auto split: if_splits)

lemma find_findIndex: "findIndex P xs = Some n \<Longrightarrow> find P xs = Some (xs ! n)"
  by (induction xs arbitrary: n) (auto split: if_splits)

lemma updateColumn_merges:
  assumes "find_board b w = Some bd" and "findIndex (\<lambda>k. c_id k = c) (columns bd) = Some n"
  shows "\<exists>bd'. find_board b (updateColumn b c u w) = Some bd'
           \<and> columns bd' = (columns bd)[n := assign_column u (columns bd ! n)]
           \<and> (\<forall>v. upd_order u = Some v \<longrightarrow> c_order (columns bd' ! n) = v)"
proof -
  let ?f = "\<lambda>x. x\<lparr>columns := modify_first (\<lambda>k. c_id k = c) (assign_column u) (columns x)\<rparr>"
  from assms(2) have col: "find_column c bd = Some (columns bd ! n)"
    by (simp add: find_column_def find_findIndex)
  from assms(2) have n: "n < length (columns bd)" by (rule findIndex_less)
  from assms(1) have "b_id (?f bd) = b" by (simp add: find_board_id)
  with assms(1) have "find_board b (with_board b ?f w) = Some (?f bd)"
    by (rule find_board_with_board)
  with assms(1) col have found: "find_board b (updateColumn b c u w) = Some (?f bd)"
    by (simp add: updateColumn_def with_column_def)
  have cols: "columns (?f bd) = (columns bd)[n := assign_column u (columns bd ! n)]"
    using assms(2) by (simp add: modify_first_index)
  have "\<forall>v. upd_order u = Some v \<longrightarrow> c_order (columns (?f bd) ! n) = v"
    using n by (simp add: cols assign_column_def or_else_def)
  with found cols show ?thesis by blast
qed

lemma updateBoard_merges:
  assumes "findIndex (\<lambda>x. b_id x = b) (boards w) = Some n" and "upd_columns u = Some cs"
  shows "columns (boards (updateBoard b u w) ! n) = cs"
proof -
  from assms(1) have "find_board b w = Some (boards w ! n)"
    by (simp add: find_board_def find_findIndex)
  moreover from assms(1) have "n < length (boards w)" by (rule findIndex_less)
  ultimately show ?thesis
    using assms by (simp add: updateBoard_def with_board_def modify_first_index
        assign_board_def or_else_def)
qed

lemma relative_start_less:
  "relative_start i (length xs) < length xs \<longleftrightarrow> i < int (length xs) \<and> xs \<noteq> []"
  by (cases xs) (auto simp: relative_start_def)

lemma reorderColumns_returns_iff:
  assumes "find_board b w = Some bd0"
  shows "(\<exists>w'. reorderColumns b i j w = Inr w')
         \<longleftrightarrow> (i < int (length (columns bd0)) \<and> columns bd0 \<noteq> [])"
proof -
  have "take 1 (drop (relative_start i (length (columns bd0))) (columns bd0)) \<noteq> []
        \<longleftrightarrow> (i < int (length (columns bd0)) \<and> columns bd0 \<noteq> [])"
    using relative_start_less [of i "columns bd0"] by (auto simp: not_le)
  with assms show ?thesis
    by (auto simp: reorderColumns_def splice_delete1_def Let_def split: list.splits)
qed

lemma reorderColumns_throws:
  assumes "find_board b w = Some bd0"
    and "int (length (columns bd0)) \<le> i \<or> columns bd0 = []"
  shows "\<exists>w' k. reorderColumns b i j w = Inl (TypeError w' k) \<and> stored w' = stored w"
proof -
  from assms(2)
  have "take 1 (drop (relative_start i (length (columns bd0))) (columns bd0)) = []"
    using relative_start_less [of i "columns bd0"] by auto
  with assms(1) show ?thesis
    by (simp add: reorderColumns_def splice_delete1_def Let_def with_board_def)
qed

lemma importFromJSON_boards:
  assumes "importFromJSON d cf w = Inr w'"
  shows "boards w' = boards w
         \<or> (\<exists>bs. get_prop d ''boards'' = Some (JArr bs)
                \<and> those (map dec_board bs) = Some (boards w'))"
  using assms
  by (auto simp: importFromJSON_def Let_def showToast_def
        split: json.splits option.splits if_splits list.splits)

text \<open>
  The claim C3 as written fails. \<^verbatim>\<open>updateColumn\<close> and \<^verbatim>\<open>updateBoard\<close> merge their partial
  fields with \<^verbatim>\<open>Object.assign\<close> and derive nothing, so a call of the first that carries an
  \<^verbatim>\<open>order\<close>, or of the second that carries \<^verbatim>\<open>columns\<close>, leaves a column whose order is not its
  index; and \<^verbatim>\<open>importFromJSON\<close> installs the boards of the document as they are.
\<close>

theorem order_can_differ_from_position:
  "store_ordered ex_world
   \<and> \<not> store_ordered (updateColumn ''b1'' ''c1''
           \<lparr>upd_c_id = None, upd_title = None, upd_order = Some 5, upd_projects = None\<rparr> ex_world)
   \<and> \<not> store_ordered (updateBoard ''b1''
           \<lparr>upd_b_id = None, upd_name = None, upd_projectIdPrefix = None,
            upd_b_description = None,
            upd_columns = Some [\<lparr>c_id = ''c9'', c_title = ''X'', c_order = 5, projects = []\<rparr>]\<rparr>
           ex_world)
   \<and> (\<exists>w'. importFromJSON ex_unordered_doc True ex_world = Inr w' \<and> \<not> store_ordered w')"
proof (intro conjI)
  show "store_ordered ex_world"
    by (simp add: store_ordered_def orders_match_def example_defs upt_conv_Cons del: upt_Suc)
  show "\<not> store_ordered (updateColumn ''b1'' ''c1''
           \<lparr>upd_c_id = None, upd_title = None, upd_order = Some 5, upd_projects = None\<rparr> ex_world)"
    by (simp add: store_ordered_def orders_match_def updateColumn_def lookup_defs effect_defs
        example_defs assign_column_def or_else_def upt_conv_Cons del: upt_Suc)
  show "\<not> store_ordered (updateBoard ''b1''
           \<lparr>upd_b_id = None, upd_name = None, upd_projectIdPrefix = None,
            upd_b_description = None,
            upd_columns = Some [\<lparr>c_id = ''c9'', c_title = ''X'', c_order = 5, projects = []\<rparr>]\<rparr>
           ex_world)"
    by (simp add: store_ordered_def orders_match_def updateBoard_def lookup_defs effect_defs
        example_defs assign_board_def or_else_def upt_conv_Cons del: upt_Suc)
  show "\<exists>w'. importFromJSON ex_unordered_doc True ex_world = Inr w' \<and> \<not> store_ordered w'"
    by (simp add: importFromJSON_def ex_unordered_doc_def get_prop_def dec_board_def
        dec_column_def str_prop_def int_prop_def dec_list_def dec_currentBoardId_def
        dec_projectCount_def Let_def showToast_def saveData_def Date_now_def example_defs
        store_ordered_def orders_match_def)
qed

text \<open>
  C3, amended. If in every board of the store each column's \<^verbatim>\<open>order\<close> is its index, the same
  holds after every operation of the store that returns normally, except a call of
  \<^verbatim>\<open>updateColumn\<close> whose partial fields carry an \<^verbatim>\<open>order\<close> and a call of \<^verbatim>\<open>updateBoard\<close> whose
  partial fields carry \<^verbatim>\<open>columns\<close>. These two merge what they are given as it is: the addressed
  column gets the given order at its unchanged index, the addressed board gets the given
  columns. An import that takes place installs the boards of the document as they are.
  Moreover, whatever the orders were before: after \<^verbatim>\<open>deleteColumn\<close> of an existing column and
  after a \<^verbatim>\<open>reorderColumns\<close> that returns normally, every column of that board has its index as
  order; \<^verbatim>\<open>reorderColumns\<close> on an existing board returns normally exactly when \<^verbatim>\<open>fromIndex\<close> is
  below the number of columns and there is a column, and throws a TypeError with nothing saved
  otherwise; and \<^verbatim>\<open>createColumn\<close> appends a column whose order is the former number of columns.
\<close>

theorem orders_follow_positions:
  "(store_ordered w \<and> \<not> sets_order oper \<and> perform oper w = Inr w' \<longrightarrow> store_ordered w')
   \<and> (\<forall>bd n. find_board b w = Some bd \<and> findIndex (\<lambda>k. c_id k = c) (columns bd) = Some n \<longrightarrow>
        (\<exists>bd'. find_board b (updateColumn b c u w) = Some bd'
           \<and> columns bd' = (columns bd)[n := assign_column u (columns bd ! n)]
           \<and> (\<forall>v. upd_order u = Some v \<longrightarrow> c_order (columns bd' ! n) = v)))
   \<and> (\<forall>n cs. findIndex (\<lambda>x. b_id x = b) (boards w) = Some n \<and> upd_columns ub = Some cs \<longrightarrow>
        columns (boards (updateBoard b ub w) ! n) = cs)
   \<and> (importFromJSON d cf w = Inr w' \<longrightarrow>
        boards w' = boards w
        \<or> (\<exists>bs. get_prop d ''boards'' = Some (JArr bs)
               \<and> those (map dec_board bs) = Some (boards w')))
   \<and> (resolve_column b c w \<noteq> None \<longrightarrow>
        (\<exists>bd. find_board b (deleteColumn b c w) = Some bd \<and> orders_match bd))
   \<and> (find_board b w \<noteq> None \<and> reorderColumns b i j w = Inr w' \<longrightarrow>
        (\<exists>bd. find_board b w' = Some bd \<and> orders_match bd))
   \<and> (\<forall>bd0. find_board b w = Some bd0 \<longrightarrow>
        ((\<exists>w''. reorderColumns b i j w = Inr w'')
           \<longleftrightarrow> (i < int (length (columns bd0)) \<and> columns bd0 \<noteq> []))
        \<and> (int (length (columns bd0)) \<le> i \<or> columns bd0 = [] \<longrightarrow>
             (\<exists>w'' k. reorderColumns b i j w = Inl (TypeError w'' k) \<and> stored w'' = stored w)))
   \<and> (\<forall>bd0. find_board b w = Some bd0 \<longrightarrow>
        (\<exists>col bd. fst (createColumn b t w) = Some col
           \<and> c_order col = int (length (columns bd0))
           \<and> find_board b (snd (createColumn b t w)) = Some bd
           \<and> columns bd = columns bd0 @ [col]))"
proof (intro conjI impI allI)
  assume "store_ordered w \<and> \<not> sets_order oper \<and> perform oper w = Inr w'"
  then show "store_ordered w'" using orders_preserved [of w oper w'] by simp
next
  fix bd n
  assume "find_board b w = Some bd \<and> findIndex (\<lambda>k. c_id k = c) (columns bd) = Some n"
  then show "\<exists>bd'. find_board b (updateColumn b c u w) = Some bd'
           \<and> columns bd' = (columns bd)[n := assign_column u (columns bd ! n)]
           \<and> (\<forall>v. upd_order u = Some v \<longrightarrow> c_order (columns bd' ! n) = v)"
    using updateColumn_merges [of b w bd c n u] by simp
next
  fix n cs
  assume "findIndex (\<lambda>x. b_id x = b) (boards w) = Some n \<and> upd_columns ub = Some cs"
  then show "columns (boards (updateBoard b ub w) ! n) = cs"
    using updateBoard_merges [of b w n ub cs] by simp
next
  assume "importFromJSON d cf w = Inr w'"
  then show "boards w' = boards w
        \<or> (\<exists>bs. get_prop d ''boards'' = Some (JArr bs)
               \<and> those (map dec_board bs) = Some (boards w'))"
    by (rule importFromJSON_boards)
next
  assume "resolve_column b c w \<noteq> None"
  then show "\<exists>bd. find_board b (deleteColumn b c w) = Some bd \<and> orders_match bd"
    using deleteColumn_renumbers [of b c w] by auto
next
  assume "find_board b w \<noteq> None \<and> reorderColumns b i j w = Inr w'"
  then show "\<exists>bd. find_board b w' = Some bd \<and> orders_match bd"
    using reorderColumns_renumbers [of b w _ i j w'] by auto
next
  fix bd0
  assume "find_board b w = Some bd0"
  then show "(\<exists>w''. reorderColumns b i j w = Inr w'')
           \<longleftrightarrow> (i < int (length (columns bd0)) \<and> columns bd0 \<noteq> [])"
    by (rule reorderColumns_returns_iff)
next
  fix bd0
  assume "find_board b w = Some bd0" and "int (length (columns bd0)) \<le> i \<or> columns bd0 = []"
  then show "\<exists>w'' k. reorderColumns b i j w = Inl (TypeError w'' k) \<and> stored w'' = stored w"
    by (rule reorderColumns_throws)
next
  fix bd0
  assume "find_board b w = Some bd0"
  then show "\<exists>col bd. fst (createColumn b t w) = Some col
           \<and> c_order col = int (length (columns bd0))
           \<and> find_board b (snd (createColumn b t w)) = Some bd
           \<and> columns bd = columns bd0 @ [col]"
    by (rule createColumn_appends)
qed

theorem orders_follow_positions_witness:
  "store_ordered ex_world
   \<and> \<not> sets_order (DeleteColumn ''b1'' ''c1'')
   \<and> perform (DeleteColumn ''b1'' ''c1'') ex_world = Inr (deleteColumn ''b1'' ''c1'' ex_world)
   \<and> store_ordered (deleteColumn ''b1'' ''c1'' ex_world)"
proof -
  have ordered: "store_ordered ex_world"
    by (simp add: store_ordered_def orders_match_def example_defs upt_conv_Cons del: upt_Suc)
  from orders_follow_positions
         [of ex_world "DeleteColumn ''b1'' ''c1''" "deleteColumn ''b1'' ''c1'' ex_world"]
       ordered
  show ?thesis by simp
qed

theorem operations_leave_the_rest_alone_witness:
  "board_of (MoveProject ''b1'' ''c1'' ''c2'' ''p1'' 0) = Some ''b1''
   \<and> project_of (MoveProject ''b1'' ''c1'' ''c2'' ''p1'' 0) = Some ''p1''
   \<and> perform (MoveProject ''b1'' ''c1'' ''c2'' ''p1'' 0) ex_world2
       = Inr (moveProject ''b1'' ''c1'' ''c2'' ''p1'' 0 ex_world2)
   \<and> unchanged_outside ''b1'' ex_world2 (moveProject ''b1'' ''c1'' ''c2'' ''p1'' 0 ex_world2)
   \<and> other_projects_unchanged ''p1'' ex_world2 (moveProject ''b1'' ''c1'' ''c2'' ''p1'' 0 ex_world2)
   \<and> boards (moveProject ''b1'' ''c1'' ''c2'' ''p1'' 0 ex_world2) ! 1 = ex_board2"
proof -
  let ?w' = "moveProject ''b1'' ''c1'' ''c2'' ''p1'' 0 ex_world2"
  from operations_leave_the_rest_alone
         [of "MoveProject ''b1'' ''c1'' ''c2'' ''p1'' 0" "''b1''" ex_world2 ?w' "''p1''"]
  have frame: "unchanged_outside ''b1'' ex_world2 ?w'"
    and others: "other_projects_unchanged ''p1'' ex_world2 ?w'"
    by simp_all
  have "length (boards ex_world2) = 2" and "b_id (boards ex_world2 ! 1) \<noteq> ''b1''"
    and "boards ex_world2 ! 1 = ex_board2"
    by (simp_all add: ex_world2_def ex_world_def ex_board2_def)
  with frame have "boards ?w' ! 1 = ex_board2"
    by (simp add: unchanged_outside_def)
  with frame others show ?thesis by simp
qed
section \<open>CSV export\<close>

lemma set_double_the_quotes: "set (double_the_quotes s) = set s"
  by (induction s) (auto simp: double_the_quotes_def)

lemma double_the_quotes_id: "double_quote \<notin> set s \<Longrightarrow> double_the_quotes s = s"
  by (induction s) (auto simp: double_the_quotes_def)

lemma escape_rule:
  "escape v =
     (if CHR '','' \<in> set v \<or> CHR 0x22 \<in> set v \<or> CHR 0x0A \<in> set v
      then [CHR 0x22] @ concat (map (\<lambda>c. if c = CHR 0x22 then [CHR 0x22, CHR 0x22] else [c]) v)
           @ [CHR 0x22]
      else v)"
proof -
  have "escape v =
     (if CHR '','' \<in> set v \<or> double_quote \<in> set v \<or> newline \<in> set v
      then double_quote # double_the_quotes v @ [double_quote] else v)"
    by (auto simp: escape_def Let_def set_double_the_quotes double_the_quotes_id)
  then show ?thesis
    unfolding double_quote_def newline_def double_the_quotes_def by simp
qed

lemma exportToGoogleSheets_text:
  "fst (exportToGoogleSheets w) =
     (if boards w = [] then None
      else Some
        (''Board Name,Column Name,Project ID,Project Name,Description,Links,Comments,Created Date''
         @ [CHR 0x0A]
         @ concat (map (\<lambda>board. concat (map (\<lambda>column. concat (map (\<lambda>project.
             join '',''
               (map escape
                  [b_name board, c_title column, projectId project, projectName project,
                   p_description project,
                   join '' | '' (map (\<lambda>l. l_title l @ '': '' @ url l) (links project)),
                   join '' | '' (map cm_text (comments project)),
                   (case activityLog project of None \<Rightarrow> ''Unknown''
                    | Some l \<Rightarrow>
                        (case find (\<lambda>a. action a = ''created'') l of None \<Rightarrow> ''Unknown''
                         | Some a \<Rightarrow> localTime w (a_timestamp a)))])
             @ [CHR 0x0A])
           (projects column))) (columns board))) (boards w))))"
proof -
  have fields: "csv_fields board column project w =
        map escape
          [b_name board, c_title column, projectId project, projectName project,
           p_description project,
           join '' | '' (map (\<lambda>l. l_title l @ '': '' @ url l) (links project)),
           join '' | '' (map cm_text (comments project)),
           (case activityLog project of None \<Rightarrow> ''Unknown''
            | Some l \<Rightarrow>
                (case find (\<lambda>a. action a = ''created'') l of None \<Rightarrow> ''Unknown''
                 | Some a \<Rightarrow> localTime w (a_timestamp a)))]"
    for board column project
    by (simp add: csv_fields_def Let_def formatTimestamp_def split: option.splits)
  show ?thesis
    unfolding exportToGoogleSheets_def Let_def case_prod_beta fields csv_header_def newline_def
    by simp
qed

text \<open>
  C6. The CSV export writes the header line and then one line for every project of every
  column of every board, in order; a line is the project's eight field values (board name,
  column title, display id, name, description, links, comments, creation date), each one
  encoded, separated by commas and ended by a newline. Encoding a value that contains a
  comma, a double quote or a newline writes it between double quotes with every double quote
  of the value doubled; encoding a value with none of these characters writes it as it is.
\<close>

theorem csv_export_quotes_every_field:
  "escape v =
     (if CHR '','' \<in> set v \<or> CHR 0x22 \<in> set v \<or> CHR 0x0A \<in> set v
      then [CHR 0x22] @ concat (map (\<lambda>c. if c = CHR 0x22 then [CHR 0x22, CHR 0x22] else [c]) v)
           @ [CHR 0x22]
      else v)
   \<and> fst (exportToGoogleSheets w) =
     (if boards w = [] then None
      else Some
        (''Board Name,Column Name,Project ID,Project Name,Description,Links,Comments,Created Date''
         @ [CHR 0x0A]
         @ concat (map (\<lambda>board. concat (map (\<lambda>column. concat (map (\<lambda>project.
             join '',''
               (map escape
                  [b_name board, c_title column, projectId project, projectName project,
                   p_description project,
                   join '' | '' (map (\<lambda>l. l_title l @ '': '' @ url l) (links project)),
                   join '' | '' (map cm_text (comments project)),
                   (case activityLog project of None \<Rightarrow> ''Unknown''
                    | Some l \<Rightarrow>
                        (case find (\<lambda>a. action a = ''created'') l of None \<Rightarrow> ''Unknown''
                         | Some a \<Rightarrow> localTime w (a_timestamp a)))])
             @ [CHR 0x0A])
           (projects column))) (columns board))) (boards w))))"
  using escape_rule [of v] exportToGoogleSheets_text [of w] by (rule conjI)

text \<open>
  The export of a store whose only project has the description \<^verbatim>\<open>a, "b"\<close>: the description
  is written as \<^verbatim>\<open>"a, ""b"""\<close>, the other values as they are.
\<close>

theorem csv_export_quotes_every_field_witness:
  "fst (exportToGoogleSheets ex_csv_world) =
     Some (''Board Name,Column Name,Project ID,Project Name,Description,Links,Comments,Created Date''
           @ [CHR 0x0A]
           @ ''B,To Do,PROJ-001,New Project,''
           @ [CHR 0x22] @ ''a, '' @ [CHR 0x22, CHR 0x22] @ ''b'' @ [CHR 0x22, CHR 0x22, CHR 0x22]
           @ '',Docs: https://a.example,hello,then'' @ [CHR 0x0A])"
proof -
  note encoded = csv_export_quotes_every_field [THEN conjunct1]
  note document = csv_export_quotes_every_field [THEN conjunct2]
  show ?thesis
    by (simp add: document encoded ex_csv_world_def ex_world_def ex_board_def
          ex_project_def)
qed

section \<open>Display ids of new projects\<close>

lemma to_double_exact: "n \<le> 2 ^ 53 \<Longrightarrow> to_double n = Finite n"
  by (simp add: to_double_def)

lemma match_number_suffix: "match_number s = map_option to_double (suffix_value s)"
  by (simp add: match_number_def suffix_value_def parseInt_def Let_def)

lemma foldl_max_suffix:
  assumes "\<forall>n \<in> set (List.map_filter (\<lambda>p. suffix_value (projectId p)) ps). n \<le> 2 ^ 53"
  shows "foldl (\<lambda>maxNumber project.
            (case match_number (projectId project) of
               None \<Rightarrow> maxNumber
             | Some num \<Rightarrow> if greater num maxNumber then num else maxNumber)) (Finite m) ps
   = Finite (Max (set (m # List.map_filter (\<lambda>p. suffix_value (projectId p)) ps)))"
proof -
  have "foldl (\<lambda>maxNumber project.
            (case match_number (projectId project) of
               None \<Rightarrow> maxNumber
             | Some num \<Rightarrow> if greater num maxNumber then num else maxNumber)) (Finite m) ps
        = Finite (fold max (List.map_filter (\<lambda>p. suffix_value (projectId p)) ps) m)"
    using assms
  proof (induction ps arbitrary: m)
    case Nil
    show ?case by (simp add: List.map_filter_simps)
  next
    case (Cons q ps)
    show ?case
    proof (cases "suffix_value (projectId q)")
      case None
      then have "match_number (projectId q) = None" by (simp add: match_number_suffix)
      with None Cons show ?thesis by (simp add: List.map_filter_simps)
    next
      case (Some n)
      with Cons.prems have "n \<le> 2 ^ 53" by (simp add: List.map_filter_simps)
      with Some have m: "match_number (projectId q) = Some (Finite n)"
        by (simp add: match_number_suffix to_double_exact)
      have step: "(if greater (Finite n) (Finite m) then Finite n else Finite m)
                  = Finite (max n m)"
        by (auto simp: max_def)
      from Cons.prems Some
      have "\<forall>n \<in> set (List.map_filter (\<lambda>p. suffix_value (projectId p)) ps). n \<le> 2 ^ 53"
        by (simp add: List.map_filter_simps)
      then show ?thesis
        using Cons.IH [of "max n m"] Some
        by (simp add: List.map_filter_simps m step del: greater.simps)
    qed
  qed
  then show ?thesis by (simp only: Max.set_eq_fold)
qed

lemma foldl_columns:
  "foldl (\<lambda>m column. foldl g m (projects column)) m cs = foldl g m (concat (map projects cs))"
  by (induction cs arbitrary: m) simp_all

lemma getNextProjectNumber_max:
  assumes "find_board b w = Some bd" and "\<forall>n \<in> set (numeric_suffixes bd). n < 2 ^ 53"
  shows "getNextProjectNumber b w = Finite (Suc (Max (set (0 # numeric_suffixes bd))))"
proof -
  let ?m = "Max (set (0 # numeric_suffixes bd))"
  have "getNextProjectNumber b w
        = plus_one
            (foldl (\<lambda>maxNumber project.
                   (case match_number (projectId project) of
                      None \<Rightarrow> maxNumber
                    | Some num \<Rightarrow> if greater num maxNumber then num else maxNumber))
                (Finite 0) (concat (map projects (columns bd))))"
    using assms(1) by (simp only: getNextProjectNumber_def foldl_columns option.case)
  moreover have "\<forall>n \<in> set (List.map_filter (\<lambda>p. suffix_value (projectId p))
                              (concat (map projects (columns bd)))). n \<le> 2 ^ 53"
    using assms(2) by (auto simp: numeric_suffixes_def dest: less_imp_le)
  ultimately have "getNextProjectNumber b w = plus_one (Finite ?m)"
    by (simp only: foldl_max_suffix numeric_suffixes_def)
  moreover have "?m \<in> set (0 # numeric_suffixes bd)"
    by (rule Max_in) simp_all
  then have "?m < 2 ^ 53" using assms(2) by auto
  then have "Suc ?m \<le> 2 ^ 53" by (rule Suc_leI)
  then have "to_double (Suc ?m) = Finite (Suc ?m)" by (rule to_double_exact)
  ultimately show ?thesis by (simp only: plus_one.simps Suc_eq_plus1)
qed

subsection \<open>Decimal strings\<close>

lemma is_digit_digit_char: "d < 10 \<Longrightarrow> is_digit (digit_char d)"
  by (simp add: is_digit_def digit_char_def)

lemma digit_val_digit_char: "d < 10 \<Longrightarrow> digit_val (digit_char d) = d"
  by (simp add: digit_val_def digit_char_def)

lemma string_of_nat_digits: "\<forall>c \<in> set (string_of_nat n). is_digit c"
proof (induction n rule: string_of_nat.induct)
  case (1 n)
  show ?case
  proof (cases "n < 10")
    case True
    then show ?thesis by (simp add: string_of_nat.simps [of n] is_digit_digit_char)
  next
    case False
    with 1 show ?thesis
      by (simp add: string_of_nat.simps [of n] is_digit_digit_char)
  qed
qed

lemma string_of_nat_nonempty: "string_of_nat n \<noteq> []"
  by (simp add: string_of_nat.simps [of n])

lemma decimal_value_append: "decimal_value (ds @ [c]) = 10 * decimal_value ds + digit_val c"
  by (simp add: decimal_value_def)

lemma decimal_value_string_of_nat: "decimal_value (string_of_nat n) = n"
proof (induction n rule: string_of_nat.induct)
  case (1 n)
  show ?case
  proof (cases "n < 10")
    case True
    then show ?thesis
      by (simp add: string_of_nat.simps [of n] decimal_value_def digit_val_digit_char)
  next
    case False
    with 1 have "decimal_value (string_of_nat (n div 10)) = n div 10" by simp
    with False show ?thesis
      by (simp add: string_of_nat.simps [of n] decimal_value_append digit_val_digit_char)
  qed
qed

lemma decimal_value_zeros: "decimal_value (replicate k (CHR ''0'') @ ds) = decimal_value ds"
  by (induction k) (simp_all add: decimal_value_def digit_val_def)

lemma padStart3_digits:
  "\<forall>c \<in> set (padStart3 (string_of_nat n)). is_digit c"
  using string_of_nat_digits [of n] by (auto simp: padStart3_def is_digit_def)

lemma decimal_value_padStart3: "decimal_value (padStart3 (string_of_nat n)) = n"
  by (simp add: padStart3_def decimal_value_zeros decimal_value_string_of_nat)

lemma takeWhile_stop:
  "\<forall>x \<in> set xs. P x \<Longrightarrow> \<not> P y \<Longrightarrow> takeWhile P (xs @ y # ys) = xs"
  by (induction xs) auto

lemma trailing_digits_after_hyphen:
  assumes "\<forall>c \<in> set ds. is_digit c"
  shows "trailing_digits (pre @ ''-'' @ ds) = ds"
proof -
  have hyphen: "\<not> is_digit (CHR ''-'')" by (simp add: is_digit_def)
  from assms have "\<forall>c \<in> set (rev ds). is_digit c" by simp
  then have "takeWhile is_digit (rev ds @ CHR ''-'' # rev pre) = rev ds"
    using hyphen by (rule takeWhile_stop)
  then show ?thesis by (simp add: trailing_digits_def)
qed

lemma suffix_value_new_id:
  "suffix_value (pre @ ''-'' @ padStart3 (string_of_nat n)) = Some n"
proof -
  have "padStart3 (string_of_nat n) \<noteq> []"
    by (simp add: padStart3_def string_of_nat_nonempty)
  then show ?thesis
    by (simp add: suffix_value_def trailing_digits_after_hyphen [OF padStart3_digits]
          decimal_value_padStart3 del: append.simps)
qed

lemma resolved_column_case:
  "resolve_column b c w = Some k \<Longrightarrow>
   (case find_board b w of None \<Rightarrow> d
    | Some x \<Rightarrow> (case find_column c x of None \<Rightarrow> d | Some y \<Rightarrow> h y)) = h k"
  by (auto simp: resolve_column_def split: option.splits)

lemma last_modify_first_field:
  assumes "\<And>x. g (f x) = g x" and "xs \<noteq> []"
  shows "g (last (modify_first P f xs)) = g (last xs)"
proof -
  have "map g (modify_first P f xs) = map g xs"
    by (rule map_modify_first_all) (rule assms(1))
  moreover have "modify_first P f xs \<noteq> []"
    using assms(2) by (cases xs) auto
  ultimately show ?thesis
    using assms(2) by (metis last_map)
qed

lemma createProject_result:
  assumes bd: "find_board b w = Some bd" and cl: "find_column c bd = Some cl"
  shows "\<exists>p w' cl'. createProject b c w = (Some p, w')
           \<and> projectId p = projectIdPrefix bd @ ''-''
                            @ padStart3 (Number_toString (getNextProjectNumber b w) w)
           \<and> resolve_column b c w' = Some cl'
           \<and> length (projects cl') = Suc (length (projects cl))
           \<and> last (projects cl') = p"
proof -
  let ?pid = "fst (generateId ''proj'' w)"
  let ?w1 = "snd (generateId ''proj'' w)"
  let ?project =
    "\<lparr>p_id = ?pid,
      projectId = projectIdPrefix bd @ ''-''
                  @ padStart3 (Number_toString (getNextProjectNumber b w) w),
      projectName = ''New Project'', p_description = [],
      links = [], comments = [], activityLog = Some []\<rparr>"
  let ?w2 = "with_column b c (\<lambda>c. c\<lparr>projects := projects c @ [?project]\<rparr>) ?w1"
  let ?w3 = "logActivity b c ?pid ''created'' ''Project created'' Null Null ?w2"
  define a where "a = fst (new_activity ''created'' ''Project created'' Null Null ?w2)"
  define ps where
    "ps = modify_first (\<lambda>q. p_id q = ?pid) (unshift_activity a) (projects cl @ [?project])"
  from bd cl have col: "resolve_column b c w = Some cl"
    by (simp add: resolve_column_def)
  then have "resolve_column b c ?w1 = Some cl" by simp
  then have col2: "resolve_column b c ?w2 = Some (cl\<lparr>projects := projects cl @ [?project]\<rparr>)"
    by (simp add: column_effect)
  have col3: "resolve_column b c ?w3 = Some (cl\<lparr>projects := ps\<rparr>)"
    unfolding resolve_column_logActivity col2 by (simp add: a_def ps_def)
  have "createProject b c w
            = (Some (case find_board b ?w3 of None \<Rightarrow> ?project
                     | Some x \<Rightarrow> (case find_column c x of None \<Rightarrow> ?project
                                  | Some y \<Rightarrow> last (projects y))),
               saveData ?w3)"
    unfolding createProject_def Let_def case_prod_beta using bd cl by simp
  then have cp': "createProject b c w = (Some (last ps), saveData ?w3)"
    by (simp only: resolved_column_case [OF col3], simp)
  have "projectId (last ps) = projectId (last (projects cl @ [?project]))"
    unfolding ps_def by (rule last_modify_first_field) (simp_all add: unshift_activity_def)
  then have "projectId (last ps) = projectId ?project" by simp
  moreover have "length ps = Suc (length (projects cl))" by (simp add: ps_def)
  moreover have "resolve_column b c (saveData ?w3) = Some (cl\<lparr>projects := ps\<rparr>)"
    unfolding resolve_column_steps by (rule col3)
  ultimately show ?thesis
    using cp' by simp
qed

subsection \<open>A number above the exact range\<close>

lemma digit_chars:
  "digit_char 0 = CHR ''0''" "digit_char (Suc 0) = CHR ''1''" "digit_char 2 = CHR ''2''"
  "digit_char 3 = CHR ''3''" "digit_char 4 = CHR ''4''" "digit_char 5 = CHR ''5''"
  "digit_char 6 = CHR ''6''" "digit_char 7 = CHR ''7''" "digit_char 8 = CHR ''8''"
  "digit_char 9 = CHR ''9''"
  by code_simp+

lemma bit_length_big: "bit_length 9007199254740993 = 54"
  by (simp add: bit_length.simps)

lemma to_double_big: "to_double 9007199254740993 = Finite 9007199254740992"
  unfolding to_double_def bit_length_big Let_def by simp

lemma big_suffixes:
  "map (\<lambda>b. numeric_suffixes b) (boards ex_big_world) = [[9007199254740993]]"
  by (simp add: ex_big_world_def numeric_suffixes_def ex_world_def ex_board_def ex_project_def
        List.map_filter_simps suffix_value_def trailing_digits_def is_digit_def
        decimal_value_def digit_val_def)

lemma big_next: "getNextProjectNumber ''b1'' ex_big_world = Finite 9007199254740992"
proof -
  have "match_number ''PROJ-9007199254740993'' = Some (Finite 9007199254740992)"
    by (simp add: match_number_def trailing_digits_def is_digit_def parseInt_def
          decimal_value_def digit_val_def to_double_big)
  moreover have "to_double (9007199254740992 + 1) = Finite 9007199254740992"
    by (simp add: to_double_big)
  ultimately show ?thesis
    by (simp add: getNextProjectNumber_def find_board_def ex_big_world_def ex_world_def
          ex_board_def ex_project_def del: to_double_big)
qed

lemma big_text: "string_of_nat 9007199254740992 = ''9007199254740992''"
  by (simp add: string_of_nat.simps digit_chars)

text \<open>
  The claim C4 as written fails on a board that holds a number the source's doubles cannot
  count past. With the display id PROJ-9007199254740993 on the board, \<^verbatim>\<open>parseInt\<close> reads
  9007199254740992, adding one gives 9007199254740992 again, and the new project gets the
  display id PROJ-9007199254740992: its number is not one more than the number on the board,
  and it is below it.
\<close>

theorem createProject_rounds_large_number:
  "map numeric_suffixes (boards ex_big_world) = [[9007199254740993]]
   \<and> (\<exists>p w'. createProject ''b1'' ''c1'' ex_big_world = (Some p, w')
          \<and> projectId p = ''PROJ-9007199254740992''
          \<and> suffix_value (projectId p) = Some 9007199254740992)"
proof -
  let ?bd = "ex_board\<lparr>columns :=
          [\<lparr>c_id = ''c1'', c_title = ''To Do'', c_order = 0,
            projects = [ex_project\<lparr>projectId := ''PROJ-9007199254740993''\<rparr>]\<rparr>]\<rparr>"
  let ?cl = "\<lparr>c_id = ''c1'', c_title = ''To Do'', c_order = 0,
            projects = [ex_project\<lparr>projectId := ''PROJ-9007199254740993''\<rparr>]\<rparr>"
  have bd: "find_board ''b1'' ex_big_world = Some ?bd"
    by (simp add: find_board_def ex_big_world_def ex_world_def ex_board_def)
  have cl: "find_column ''c1'' ?bd = Some ?cl"
    by (simp add: find_column_def)
  have digits: "Number_toString (Finite 9007199254740992) ex_big_world = ''9007199254740992''"
    by (simp add: Number_toString_def big_text)
  from createProject_result [OF bd cl] obtain p w' where
    "createProject ''b1'' ''c1'' ex_big_world = (Some p, w')"
    "projectId p = projectIdPrefix ?bd @ ''-''
                   @ padStart3 (Number_toString (getNextProjectNumber ''b1'' ex_big_world)
                                  ex_big_world)"
    by blast
  moreover from this(2) have id: "projectId p = ''PROJ-9007199254740992''"
    by (simp add: big_next digits padStart3_def ex_board_def)
  moreover have "suffix_value ''PROJ-9007199254740992'' = Some 9007199254740992"
    by (simp add: suffix_value_def trailing_digits_def is_digit_def decimal_value_def
          digit_val_def)
  ultimately show ?thesis
    using big_suffixes by auto
qed

text \<open>
  C4, amended. When the board and the column resolve and every number at the end of a display
  id on the board is below \<open>2^53\<close>, \<^verbatim>\<open>createProject\<close> returns the project it appended to the
  column, and its display id is the board's prefix, a hyphen and the next number padded with
  zeros to three digits. The next number is one more than the greatest number that the
  regular expression extracts from the display ids of all projects in all columns of the
  board (and 1 when there is none); so it is greater than each of them, and it is the number
  extracted from the new display id.
\<close>

theorem createProject_assigns_next_id:
  assumes "find_board b w = Some bd" and "find_column c bd = Some cl"
    and "\<forall>n \<in> set (numeric_suffixes bd). n < 2 ^ 53"
  shows "\<exists>p w' cl' num.
           createProject b c w = (Some p, w')
           \<and> getNextProjectNumber b w = Finite num
           \<and> num = Suc (Max (set (0 # numeric_suffixes bd)))
           \<and> projectId p = projectIdPrefix bd @ ''-'' @ padStart3 (string_of_nat num)
           \<and> (\<forall>n \<in> set (numeric_suffixes bd). n < num)
           \<and> suffix_value (projectId p) = Some num
           \<and> resolve_column b c w' = Some cl'
           \<and> length (projects cl') = Suc (length (projects cl))
           \<and> last (projects cl') = p"
proof -
  let ?m = "Max (set (0 # numeric_suffixes bd))"
  let ?num = "Suc ?m"
  have num: "getNextProjectNumber b w = Finite ?num"
    using assms(1,3) by (rule getNextProjectNumber_max)
  have "?m \<in> set (0 # numeric_suffixes bd)"
    by (rule Max_in) simp_all
  then have "?m < 2 ^ 53" using assms(3) by auto
  then have "?num \<le> 2 ^ 53" by (rule Suc_leI)
  then have digits: "Number_toString (Finite ?num) w = string_of_nat ?num"
    by (simp only: Number_toString_def number.case if_True)
  have above: "\<forall>n \<in> set (numeric_suffixes bd). n < ?num"
    by (auto simp: less_Suc_eq_le)
  from createProject_result [OF assms(1,2)] obtain p w' cl' where
    "createProject b c w = (Some p, w')"
    "projectId p = projectIdPrefix bd @ ''-'' @ padStart3 (string_of_nat ?num)"
    "resolve_column b c w' = Some cl'"
    "length (projects cl') = Suc (length (projects cl))"
    "last (projects cl') = p"
    unfolding num digits by blast
  moreover from this(2) have "suffix_value (projectId p) = Some ?num"
    by (simp only: suffix_value_new_id)
  ultimately show ?thesis using above num by blast
qed

lemma ex_suffixes: "numeric_suffixes ex_board = [1]"
  by (simp add: numeric_suffixes_def ex_board_def ex_project_def List.map_filter_simps
        suffix_value_def trailing_digits_def is_digit_def decimal_value_def digit_val_def)

lemma ex_display_id: "''PROJ'' @ ''-'' @ padStart3 (string_of_nat 2) = ''PROJ-002''"
  by code_simp

theorem createProject_assigns_next_id_witness:
  "find_board ''b1'' ex_world = Some ex_board
   \<and> find_column ''c2'' ex_board
       = Some \<lparr>c_id = ''c2'', c_title = ''Done'', c_order = 1, projects = []\<rparr>
   \<and> numeric_suffixes ex_board = [1]
   \<and> (\<exists>p w' cl'. createProject ''b1'' ''c2'' ex_world = (Some p, w')
          \<and> projectId p = ''PROJ-002''
          \<and> suffix_value (projectId p) = Some 2
          \<and> resolve_column ''b1'' ''c2'' w' = Some cl'
          \<and> projects cl' = [p])"
proof -
  let ?cl = "\<lparr>c_id = ''c2'', c_title = ''Done'', c_order = 1, projects = []\<rparr>"
  have bd: "find_board ''b1'' ex_world = Some ex_board"
    by (simp add: find_board_def ex_world_def ex_board_def)
  have cl: "find_column ''c2'' ex_board = Some ?cl"
    by (simp add: find_column_def ex_board_def)
  have small: "\<forall>n \<in> set (numeric_suffixes ex_board). n < 2 ^ 53"
    by (simp add: ex_suffixes)
  have prefix: "projectIdPrefix ex_board = ''PROJ''" by (simp add: ex_board_def)
  from createProject_assigns_next_id [OF bd cl small]
  obtain p w' cl' where r: "createProject ''b1'' ''c2'' ex_world = (Some p, w')"
    "projectId p = projectIdPrefix ex_board @ ''-'' @ padStart3 (string_of_nat (Suc (Max (set (0 # numeric_suffixes ex_board)))))"
    "suffix_value (projectId p) = Some (Suc (Max (set (0 # numeric_suffixes ex_board))))"
    "resolve_column ''b1'' ''c2'' w' = Some cl'"
    "length (projects cl') = Suc (length (projects ?cl))"
    "last (projects cl') = p"
    by blast
  have two: "Suc (Max (set (0 # numeric_suffixes ex_board))) = 2"
    by (simp add: ex_suffixes)
  from r(5) have "length (projects cl') = 1" by simp
  then obtain q where "projects cl' = [q]"
    by (cases "projects cl'") auto
  with r(6) have "projects cl' = [p]" by simp
  moreover from r(2) have "projectId p = ''PROJ-002''"
    unfolding two prefix by (simp only: ex_display_id)
  ultimately show ?thesis
    using bd cl r(1,3,4) two ex_suffixes by auto
qed

section \<open>Export and import of a snapshot\<close>

lemma those_map_Some:
  "(\<And>x. x \<in> set xs \<Longrightarrow> f x = Some (g x)) \<Longrightarrow> those (map f xs) = Some (map g xs)"
  by (induction xs) simp_all

lemma dec_list_enc:
  assumes "\<And>x. x \<in> set xs \<Longrightarrow> dec (enc x) = Some (g x)"
  shows "dec_list dec (Some (JArr (map enc xs))) = Some (map g xs)"
  using those_map_Some [of xs "dec \<circ> enc" g] assms by (simp add: dec_list_def)

lemma dec_enc_jsval: "dec_jsval (Some (enc_jsval v)) = Some v"
proof (cases v)
  case Null
  then show ?thesis by (simp add: dec_jsval_def enc_jsval_def)
next
  case (Str s)
  then show ?thesis by (simp add: dec_jsval_def enc_jsval_def)
next
  case (Obj kvs)
  have "those (map (dec_string_value \<circ> snd) (map (\<lambda>(k, x). (k, JStr x)) kvs))
        = Some (map snd kvs)"
    by (induction kvs) (auto simp: dec_string_value_def)
  moreover have "map fst (map (\<lambda>(k, x). (k, JStr x)) kvs) = map fst kvs"
    by (induction kvs) auto
  ultimately have "dec_jsval (Some (JObj (map (\<lambda>(k, x). (k, JStr x)) kvs))) = Some (Obj kvs)"
    unfolding dec_jsval_def by (simp only: option.case json.case option.map zip_map_fst_snd)
  with Obj show ?thesis by (simp add: enc_jsval_def)
qed

lemma dec_enc_activity: "dec_activity (enc_activity a) = Some a"
  by (simp add: dec_activity_def enc_activity_def str_prop_def nat_prop_def get_prop_def
        dec_enc_jsval)

lemma dec_enc_link: "dec_link (enc_link isoOf l) = Some (link_as_parsed isoOf l)"
  by (cases "l_timestamp l")
     (simp_all add: dec_link_def enc_link_def str_prop_def stamp_prop_def get_prop_def
        enc_stamp_def link_as_parsed_def stamp_as_parsed_def)

lemma dec_enc_comment: "dec_comment (enc_comment isoOf c) = Some (comment_as_parsed isoOf c)"
  by (cases "cm_timestamp c")
     (simp_all add: dec_comment_def enc_comment_def str_prop_def stamp_prop_def get_prop_def
        enc_stamp_def comment_as_parsed_def stamp_as_parsed_def)

lemma dec_enc_project: "dec_project (enc_project isoOf p) = Some (project_as_parsed isoOf p)"
proof (cases "activityLog p")
  case None
  then show ?thesis
    by (simp add: dec_project_def enc_project_def str_prop_def get_prop_def
          dec_list_enc [of _ dec_link "enc_link isoOf" "link_as_parsed isoOf"]
          dec_list_enc [of _ dec_comment "enc_comment isoOf" "comment_as_parsed isoOf"]
          dec_enc_link dec_enc_comment dec_activityLog_def project_as_parsed_def)
next
  case (Some l)
  then show ?thesis
    by (simp add: dec_project_def enc_project_def str_prop_def get_prop_def
          dec_list_enc [of _ dec_link "enc_link isoOf" "link_as_parsed isoOf"]
          dec_list_enc [of _ dec_comment "enc_comment isoOf" "comment_as_parsed isoOf"]
          dec_list_enc [of _ dec_activity enc_activity "\<lambda>a. a"]
          dec_enc_link dec_enc_comment dec_enc_activity dec_activityLog_def
          project_as_parsed_def)
qed

lemma dec_enc_column: "dec_column (enc_column isoOf c) = Some (column_as_parsed isoOf c)"
  by (simp add: dec_column_def enc_column_def str_prop_def int_prop_def get_prop_def
        dec_list_enc [of _ dec_project "enc_project isoOf" "project_as_parsed isoOf"]
        dec_enc_project column_as_parsed_def)

lemma dec_enc_board: "dec_board (enc_board isoOf b) = Some (board_as_parsed isoOf b)"
  by (simp add: dec_board_def enc_board_def str_prop_def get_prop_def
        dec_list_enc [of _ dec_column "enc_column isoOf" "column_as_parsed isoOf"]
        dec_enc_column board_as_parsed_def)

lemma exportToJSON_document:
  assumes "boards w \<noteq> []"
  shows "\<exists>w1 at formatted.
           exportToJSON w =
             (Some (JObj [(''boards'', JArr (map (enc_board (toISOString w)) (boards w))),
                          (''currentBoardId'',
                             (case currentBoardId w of None \<Rightarrow> JNull | Some i \<Rightarrow> JStr i)),
                          (''exportedAt'', JNum at),
                          (''exportedAtFormatted'', JStr formatted),
                          (''version'', JStr ''1.0''),
                          (''boardCount'', JNum (int (length (boards w)))),
                          (''projectCount'', JNum (int (count_projects (boards w))))]), w1)"
  using assms by (simp add: exportToJSON_def Let_def case_prod_beta)

lemma round_trip_boards:
  assumes "boards w \<noteq> []"
  shows "\<exists>doc w1. exportToJSON w = (Some doc, w1)
           \<and> (\<forall>w2. \<exists>w3. importFromJSON doc True w2 = Inr w3
                  \<and> boards w3 = map (board_as_parsed (toISOString w)) (boards w))"
proof -
  from exportToJSON_document [OF assms] obtain w1 at formatted where
    ex: "exportToJSON w =
             (Some (JObj [(''boards'', JArr (map (enc_board (toISOString w)) (boards w))),
                          (''currentBoardId'',
                             (case currentBoardId w of None \<Rightarrow> JNull | Some i \<Rightarrow> JStr i)),
                          (''exportedAt'', JNum at),
                          (''exportedAtFormatted'', JStr formatted),
                          (''version'', JStr ''1.0''),
                          (''boardCount'', JNum (int (length (boards w)))),
                          (''projectCount'', JNum (int (count_projects (boards w))))]), w1)"
    by blast
  let ?doc = "JObj [(''boards'', JArr (map (enc_board (toISOString w)) (boards w))),
                          (''currentBoardId'',
                             (case currentBoardId w of None \<Rightarrow> JNull | Some i \<Rightarrow> JStr i)),
                          (''exportedAt'', JNum at),
                          (''exportedAtFormatted'', JStr formatted),
                          (''version'', JStr ''1.0''),
                          (''boardCount'', JNum (int (length (boards w)))),
                          (''projectCount'', JNum (int (count_projects (boards w))))]"
  have decoded: "those (map dec_board (map (enc_board (toISOString w)) (boards w)))
        = Some (map (board_as_parsed (toISOString w)) (boards w))"
    using those_map_Some [of "boards w" "dec_board \<circ> enc_board (toISOString w)"
                             "board_as_parsed (toISOString w)"]
    by (simp add: dec_enc_board)
  have "\<exists>w3. importFromJSON ?doc True w2 = Inr w3
                  \<and> boards w3 = map (board_as_parsed (toISOString w)) (boards w)" for w2
    using assms
    by (cases "currentBoardId w")
       (simp_all add: importFromJSON_def get_prop_def decoded dec_currentBoardId_def
          dec_projectCount_def Let_def showToast_def split: list.splits option.splits
          del: map_map)
  with ex show ?thesis by blast
qed

lemma stamp_as_parsed_id: "is_DateString t \<Longrightarrow> stamp_as_parsed isoOf t = t"
  by (cases t) (simp_all add: is_DateString_def stamp_as_parsed_def)

lemma board_as_parsed_id:
  assumes "no_Date_objects b"
  shows "board_as_parsed isoOf b = b"
proof -
  have "project_as_parsed isoOf p = p" if "c \<in> set (columns b)" "p \<in> set (projects c)" for c p
  proof -
    from assms that have "\<forall>l \<in> set (links p). is_DateString (l_timestamp l)"
      and "\<forall>m \<in> set (comments p). is_DateString (cm_timestamp m)"
      by (auto simp: no_Date_objects_def)
    then have "map (link_as_parsed isoOf) (links p) = links p"
      and "map (comment_as_parsed isoOf) (comments p) = comments p"
      by (simp_all add: map_idI link_as_parsed_def comment_as_parsed_def stamp_as_parsed_id)
    then show ?thesis by (simp add: project_as_parsed_def)
  qed
  then have "column_as_parsed isoOf c = c" if "c \<in> set (columns b)" for c
    using that by (simp add: column_as_parsed_def map_idI)
  then show ?thesis by (simp add: board_as_parsed_def map_idI)
qed

text \<open>
  The claim C8 as written fails for a store that holds a link or a comment made in the
  running session: its timestamp is a \<^verbatim>\<open>Date\<close> object, which the snapshot holds as a string,
  and the import installs the string.
\<close>

theorem round_trip_changes_timestamps:
  "boards ex_world \<noteq> []
   \<and> (\<exists>doc w1 w3. exportToJSON ex_world = (Some doc, w1)
          \<and> importFromJSON doc True w1 = Inr w3
          \<and> boards w3 \<noteq> boards ex_world
          \<and> map (\<lambda>b. map (\<lambda>c. map (\<lambda>p. map l_timestamp (links p)) (projects c)) (columns b))
                (boards ex_world) = [[[[DateObject 5]], []]]
          \<and> map (\<lambda>b. map (\<lambda>c. map (\<lambda>p. map l_timestamp (links p)) (projects c)) (columns b))
                (boards w3) = [[[[DateString ''T5'']], []]])"
proof -
  have nonempty: "boards ex_world \<noteq> []" by (simp add: ex_world_def)
  from round_trip_boards [OF nonempty] obtain doc w1 w3 where
    "exportToJSON ex_world = (Some doc, w1)" "importFromJSON doc True w1 = Inr w3"
    and after: "boards w3 = map (board_as_parsed (toISOString ex_world)) (boards ex_world)"
    by blast
  moreover have five: "string_of_nat 5 = ''5''" by code_simp
  have "map (\<lambda>b. map (\<lambda>c. map (\<lambda>p. map l_timestamp (links p)) (projects c)) (columns b))
            (boards w3) = [[[[DateString ''T5'']], []]]"
    unfolding after
    by (simp add: example_defs board_as_parsed_def column_as_parsed_def project_as_parsed_def
          link_as_parsed_def stamp_as_parsed_def five)
  moreover have "map (\<lambda>b. map (\<lambda>c. map (\<lambda>p. map l_timestamp (links p)) (projects c)) (columns b))
            (boards ex_world) = [[[[DateObject 5]], []]]"
    by (simp add: example_defs)
  ultimately show ?thesis using nonempty by (intro conjI exI [of _ doc] exI [of _ w1] exI [of _ w3]) auto
qed

text \<open>
  C8, amended. For a store with at least one board, the export yields a snapshot, and
  importing that snapshot with confirmation granted, into whatever store, succeeds and leaves
  the board/column/project tree that \<^verbatim>\<open>JSON.parse\<close> reads back from the text written for the
  original tree: the original tree with each \<^verbatim>\<open>Date\<close> timestamp of a link or comment replaced
  by its ISO string. When no link or comment of the original holds a \<^verbatim>\<open>Date\<close> object (a store
  loaded from storage or imported, and not edited since), the tree is identical to the
  original.
\<close>

theorem export_import_round_trip:
  assumes "boards w \<noteq> []"
  shows "\<exists>doc w1. exportToJSON w = (Some doc, w1)
           \<and> (\<forall>w2. \<exists>w3. importFromJSON doc True w2 = Inr w3
                  \<and> boards w3 = map (board_as_parsed (toISOString w)) (boards w)
                  \<and> ((\<forall>b \<in> set (boards w). no_Date_objects b) \<longrightarrow> boards w3 = boards w))"
proof -
  have "map (board_as_parsed (toISOString w)) (boards w) = boards w"
    if "\<forall>b \<in> set (boards w). no_Date_objects b"
    using that by (simp add: map_idI board_as_parsed_id)
  with round_trip_boards [OF assms] show ?thesis by metis
qed

theorem export_import_round_trip_witness:
  "boards ex_loaded_world \<noteq> []
   \<and> (\<exists>doc w1 w3. exportToJSON ex_loaded_world = (Some doc, w1)
          \<and> importFromJSON doc True w1 = Inr w3
          \<and> boards w3 = boards ex_loaded_world)"
proof -
  have nonempty: "boards ex_loaded_world \<noteq> []"
    by (simp add: ex_loaded_world_def ex_world_def)
  have strings: "\<forall>b \<in> set (boards ex_loaded_world). no_Date_objects b"
    by (simp add: ex_loaded_world_def example_defs no_Date_objects_def is_DateString_def
          board_as_parsed_def column_as_parsed_def project_as_parsed_def link_as_parsed_def
          comment_as_parsed_def stamp_as_parsed_def)
  from export_import_round_trip [OF nonempty] strings nonempty show ?thesis
    by metis
qed

end
